theory Spec2Isabelle
  imports Complex_Main "HOL-Library.Word"
begin

unbundle bit_operations_syntax

section \<open>Conventions of the embedding\<close>

text \<open>
  The development embeds the world-generation core of WorldSim: the class
  \<open>ClimateSystem\<close> and the class \<open>WorldGenerator\<close> in its later version, the one
  with tectonic plates and rivers.

  \<^item> A JavaScript \<open>number\<close> is modelled as a mathematical \<open>real\<close>: rounding,
    infinities and NaN are not represented. Where the source divides by zero
    the text says what JavaScript computes and what the model computes.
  \<^item> Cell identifiers are the strings the H3 library hands out.
  \<^item> The libraries the source imports (h3-js, simplex-noise, the canvas of a
    loaded image) and \<open>Math.random\<close> are parameters of the model.
  \<^item> An array read out of range is \<open>undefined\<close>; where the source goes on
    to use it as a cell, the model returns an error.
\<close>

section \<open>ClimateSystem\<close>

definition calculateInsolation :: "real \<Rightarrow> real \<Rightarrow> real \<Rightarrow> real \<Rightarrow> real \<Rightarrow> real \<Rightarrow> real" where
  "calculateInsolation lat lon tilt sunlight rotationPeriod orbitalPeriod =
     (let isTidallyLocked = \<bar>rotationPeriod - orbitalPeriod\<bar> < 0.1 in
      if isTidallyLocked then
        (let latRad = lat * pi / 180;
             lonRad = lon * pi / 180;
             dot = cos latRad * cos lonRad;
             dot = (if dot < 0 then 0 else dot)
         in dot * sunlight)
      else
        (let latRad = lat * pi / 180
         in cos latRad * sunlight))"

definition calculateTemperature :: "real \<Rightarrow> real \<Rightarrow> real \<Rightarrow> real" where
  "calculateTemperature insolation height seaLevel =
     (let temp = - 20 + insolation * 50 in
      if height > seaLevel then
        (let altitude = height - seaLevel in temp - altitude * 80)
      else temp)"

text \<open>
  With \<open>rotationSpeed = 0\<close> JavaScript computes \<open>cellWidth = Infinity\<close> and
  \<open>phase = 0\<close>; in HOL \<open>30 / 0 = 0\<close> and \<open>latAbs / 0 = 0\<close>, so the phase is 0 as
  well. With \<open>rotationSpeed < 0\<close> JavaScript computes NaN throughout, which the
  model does not represent.
\<close>

definition calculateMoisture :: "real \<Rightarrow> real \<Rightarrow> real \<Rightarrow> real \<Rightarrow> real" where
  "calculateMoisture lat height seaLevel rotationSpeed =
     (let cellWidth = 30 / sqrt rotationSpeed;
          latAbs = \<bar>lat\<bar>;
          phase = (latAbs / cellWidth) * pi;
          baseMoisture = (cos phase + 1) / 2;
          baseMoisture = baseMoisture * 0.8 + 0.1;
          baseMoisture = (if height > seaLevel
                          then (let altitude = height - seaLevel
                                in baseMoisture + altitude * 0.5)
                          else baseMoisture)
      in min 1 (max 0 baseMoisture))"

definition determineBiome :: "real \<Rightarrow> real \<Rightarrow> real \<Rightarrow> real \<Rightarrow> string" where
  "determineBiome temp moisture height seaLevel =
     (if height \<le> seaLevel then ''OCEAN''
      else if temp < - 5 then ''ICE''
      else if temp < 5 then ''TUNDRA''
      else if temp > 20 then
        (if moisture > 0.8 then ''TROPICAL_RAINFOREST''
         else if moisture > 0.4 then ''SAVANNA''
         else ''DESERT'')
      else if temp > 10 then
        (if moisture > 0.6 then ''TEMPERATE_FOREST''
         else if moisture > 0.3 then ''GRASSLAND''
         else ''DESERT'')
      else if moisture > 0.5 then ''TAIGA''
      else ''TUNDRA'')"

text \<open>
  The decision table as the specification words it: a list of rules in
  priority order, each a condition and a biome; the first rule whose condition
  holds decides.
\<close>

definition biomeRules :: "real \<Rightarrow> real \<Rightarrow> real \<Rightarrow> real \<Rightarrow> (bool \<times> string) list" where
  "biomeRules temperature moisture elevation seaLevel =
     [(elevation \<le> seaLevel, ''OCEAN''),
      (temperature < - 5, ''ICE''),
      (temperature < 5, ''TUNDRA''),
      (temperature > 20 \<and> moisture > 0.8, ''TROPICAL_RAINFOREST''),
      (temperature > 20 \<and> moisture > 0.4, ''SAVANNA''),
      (temperature > 20, ''DESERT''),
      (temperature > 10 \<and> moisture > 0.6, ''TEMPERATE_FOREST''),
      (temperature > 10 \<and> moisture > 0.3, ''GRASSLAND''),
      (temperature > 10, ''DESERT''),
      (moisture > 0.5, ''TAIGA''),
      (True, ''TUNDRA'')]"

fun firstRule :: "(bool \<times> 'a) list \<Rightarrow> 'a option" where
  "firstRule [] = None"
| "firstRule ((c, r) # rules) = (if c then Some r else firstRule rules)"

section \<open>The libraries the generator imports\<close>

text \<open>
  The grid functions of h3-js. \<open>cellToLatLng\<close> answers for the identifiers the
  grid hands out; \<open>cellToLatLngUndefined\<close> is what the library does when it is
  handed \<open>undefined\<close> (\<open>None\<close> when it throws, else the coordinates it
  returns), which the plate generator can do when its cell array is empty.
\<close>

record Grid =
  getRes0Cells :: "string list"
  cellToChildren :: "string \<Rightarrow> int \<Rightarrow> string list"
  cellToLatLng :: "string \<Rightarrow> real \<times> real"
  cellToLatLngUndefined :: "(real \<times> real) option"
  gridDisk :: "string \<Rightarrow> int \<Rightarrow> string list"

datatype error =
  TypeError       \<comment> \<open>a property of \<open>undefined\<close> is read\<close>
| LibraryError    \<comment> \<open>h3-js throws on \<open>undefined\<close>\<close>

datatype GenerationMethod = Noise | Tectonic

text \<open>
  Reading an array at a number: \<open>undefined\<close> (here \<open>None\<close>) outside
  \<open>0 .. length - 1\<close>.
\<close>

definition arrayGet :: "'a list \<Rightarrow> int \<Rightarrow> 'a option" where
  "arrayGet xs i = (if 0 \<le> i \<and> i < int (length xs) then Some (xs ! nat i) else None)"

text \<open>\<open>Math.floor(Math.random() * n)\<close> for a drawn value \<open>r\<close>.\<close>

definition randomIndex :: "real \<Rightarrow> nat \<Rightarrow> int" where
  "randomIndex r n = \<lfloor>r * real n\<rfloor>"

text \<open>
  \<open>Math.random\<close> is the sequence of values it returns from the start of a
  call on, \<open>rnd 0\<close>, \<open>rnd 1\<close>, ...; its contract is that each lies in
  \<open>[0, 1)\<close>.
\<close>

definition randomContract :: "(nat \<Rightarrow> real) \<Rightarrow> bool" where
  "randomContract rnd = (\<forall>i. 0 \<le> rnd i \<and> rnd i < 1)"

text \<open>The contract of simplex-noise: every sample lies in \<open>[-1, 1]\<close>.\<close>

definition noiseContract :: "(real \<Rightarrow> real \<Rightarrow> real \<Rightarrow> real) \<Rightarrow> bool" where
  "noiseContract f = (\<forall>x y z. - 1 \<le> f x y z \<and> f x y z \<le> 1)"

section \<open>WorldGenerator\<close>

record CellInfo =
  h3Index :: string
  lat :: real
  lon :: real
  height :: real

record CellData = CellInfo +
  temperature :: real
  moisture :: real
  biome :: string
  isRiver :: bool

text \<open>
  The generator object. \<open>heightMapContext\<close> is the canvas of the loaded image,
  read through \<open>getImageData(x, y, 1, 1).data[0]\<close>: the red channel of one
  pixel, a byte.
\<close>

record WorldGenerator =
  noise3D :: "real \<Rightarrow> real \<Rightarrow> real \<Rightarrow> real"
  heightMapContext :: "(int \<Rightarrow> int \<Rightarrow> 8 word) option"
  heightMapWidth :: int
  heightMapHeight :: int

text \<open>
  The seed hash of the constructor and of \<open>setSeed\<close>: a seed is a sequence of
  UTF-16 code units, the accumulator a 32-bit integer. \<open>createNoise3D\<close> of
  simplex-noise receives a function that returns the same fraction at every
  call, so it is modelled as a function of that fraction.
\<close>

definition seedHash :: "16 word list \<Rightarrow> 32 word" where
  "seedHash seed = fold (\<lambda>c h. (h XOR ucast c) * 0x01000193) seed 0x811c9dc5"

definition seedFraction :: "16 word list \<Rightarrow> real" where
  "seedFraction seed = real (unat (seedHash seed)) / 4294967296"

definition newWorldGenerator ::
  "(real \<Rightarrow> real \<Rightarrow> real \<Rightarrow> real \<Rightarrow> real) \<Rightarrow> 16 word list \<Rightarrow> WorldGenerator" where
  "newWorldGenerator createNoise3D seed =
     \<lparr>noise3D = createNoise3D (seedFraction seed), heightMapContext = None,
      heightMapWidth = 0, heightMapHeight = 0\<rparr>"

definition setSeed ::
  "(real \<Rightarrow> real \<Rightarrow> real \<Rightarrow> real \<Rightarrow> real) \<Rightarrow> WorldGenerator \<Rightarrow> 16 word list \<Rightarrow> WorldGenerator" where
  "setSeed createNoise3D gen seed = gen\<lparr>noise3D := createNoise3D (seedFraction seed)\<rparr>"

text \<open>\<open>loadHeightMap\<close> once the image has been decoded and drawn.\<close>

definition loadHeightMap ::
  "WorldGenerator \<Rightarrow> (int \<Rightarrow> int \<Rightarrow> 8 word) \<Rightarrow> int \<Rightarrow> int \<Rightarrow> WorldGenerator" where
  "loadHeightMap gen ctx imgWidth imgHeight =
     gen\<lparr>heightMapContext := Some ctx, heightMapWidth := imgWidth, heightMapHeight := imgHeight\<rparr>"

definition getNoise :: "WorldGenerator \<Rightarrow> real \<Rightarrow> real \<Rightarrow> real" where
  "getNoise gen la lo =
     (let r = 1;
          cosLat = cos (la * pi / 180);
          sinLat = sin (la * pi / 180);
          cosLon = cos (lo * pi / 180);
          sinLon = sin (lo * pi / 180);
          x = r * cosLat * cosLon;
          y = r * cosLat * sinLon;
          z = r * sinLat;
          v = 0;
          v = v + noise3D gen x y z * 1.0;
          v = v + noise3D gen (x * 2) (y * 2) (z * 2) * 0.5;
          v = v + noise3D gen (x * 4) (y * 4) (z * 4) * 0.25
      in v / 1.75)"

subsection \<open>Tectonic plates\<close>

text \<open>
  The inner loop of the Voronoi assignment: \<open>minDist\<close> starts at
  \<open>Infinity\<close> (\<open>None\<close>), below which every distance lies.
\<close>

definition nearestPlate :: "(real \<times> real) list \<Rightarrow> real \<Rightarrow> real \<Rightarrow> nat" where
  "nearestPlate centerCoords la lo =
     snd (fold (\<lambda>(center, pid) (minDist, plateId).
                  let dLat = la - fst center;
                      dLon = lo - snd center;
                      dist = dLat * dLat + dLon * dLon
                  in if (case minDist of None \<Rightarrow> True | Some m \<Rightarrow> dist < m)
                     then (Some dist, pid) else (minDist, plateId))
               (zip centerCoords [0..<length centerCoords]) (None, 0))"

definition latLngOf :: "Grid \<Rightarrow> string option \<Rightarrow> (real \<times> real) option" where
  "latLngOf g c = (case c of Some s \<Rightarrow> Some (cellToLatLng g s) | None \<Rightarrow> cellToLatLngUndefined g)"

text \<open>
  \<open>generateTectonicPlates\<close> returns the height map and the number of values it
  drew from \<open>Math.random\<close>: one for the plate count, one per centre, one per
  plate height. A plate height read outside \<open>plateHeights\<close> is \<open>undefined\<close>;
  the entry then reads as \<open>undefined\<close>, as a missing one does.
\<close>

definition generateTectonicPlates ::
  "Grid \<Rightarrow> (nat \<Rightarrow> real) \<Rightarrow> string list \<Rightarrow> error + ((string \<rightharpoonup> real) \<times> nat)" where
  "generateTectonicPlates g rnd cells =
     (let numPlates = nat (8 + \<lfloor>rnd 0 * 5\<rfloor>);
          centers = map (\<lambda>i. arrayGet cells (randomIndex (rnd (1 + i)) (length cells)))
                        [0..<numPlates]
      in case those (map (latLngOf g) centers) of
           None \<Rightarrow> Inl LibraryError
         | Some centerCoords \<Rightarrow>
             (let cellCoords = map (\<lambda>c. (c, cellToLatLng g c)) cells;
                  plateMap = fold (\<lambda>(c, ll) m. m(c \<mapsto> nearestPlate centerCoords (fst ll) (snd ll)))
                                  cellCoords Map.empty;
                  plateHeights = map (\<lambda>i. rnd (1 + numPlates + i) * 0.8 + 0.1) [0..<numPlates];
                  heightMap = fold (\<lambda>(c, ll) m.
                                      m(c := (case plateMap c of
                                                Some pid \<Rightarrow> arrayGet plateHeights (int pid)
                                              | None \<Rightarrow> None)))
                                   cellCoords Map.empty
              in Inr (heightMap, 1 + 2 * numPlates)))"

subsection \<open>Rivers\<close>

definition numRivers :: nat where
  "numRivers = 50"

definition buildHeightMap :: "CellInfo list \<Rightarrow> (string \<rightharpoonup> real)" where
  "buildHeightMap cells = fold (\<lambda>c m. m(h3Index c \<mapsto> height c)) cells Map.empty"

definition candidates :: "CellInfo list \<Rightarrow> real \<Rightarrow> CellInfo list" where
  "candidates cells seaLevel = filter (\<lambda>c. height c > seaLevel + 0.3) cells"

text \<open>
  The scan of the neighbours: \<open>neighborStep\<close> is the body of the \<open>for\<close>
  loop on the pair \<open>(bestNeighbor, lowestHeight)\<close>.
\<close>

definition neighborStep ::
  "(string \<rightharpoonup> real) \<Rightarrow> CellInfo \<Rightarrow> string \<Rightarrow> string option \<times> real \<Rightarrow> string option \<times> real" where
  "neighborStep heightMap current n st =
     (case st of (bestNeighbor, lowestHeight) \<Rightarrow>
        if n = h3Index current then (bestNeighbor, lowestHeight)
        else (case heightMap n of
                Some h \<Rightarrow> if h < lowestHeight then (Some n, h)
                          else (bestNeighbor, lowestHeight)
              | None \<Rightarrow> (bestNeighbor, lowestHeight)))"

definition lowestNeighbor ::
  "(string \<rightharpoonup> real) \<Rightarrow> string list \<Rightarrow> CellInfo \<Rightarrow> string option \<times> real" where
  "lowestNeighbor heightMap neighbors current =
     fold (neighborStep heightMap current) neighbors (None, height current)"

text \<open>
  The walk of one river: the \<open>while\<close> loop, with the set of rivers passed
  through. \<open>if (bestNeighbor)\<close> is JavaScript truthiness: \<open>null\<close> and the empty
  string both end the walk.
\<close>

function riverWalk ::
  "Grid \<Rightarrow> (string \<rightharpoonup> real) \<Rightarrow> real \<Rightarrow> CellInfo \<Rightarrow> nat \<Rightarrow> string set \<Rightarrow> string set" where
  "riverWalk g heightMap seaLevel current pathLength rivers =
     (if height current > seaLevel \<and> pathLength < 100 then
        (let rivers = insert (h3Index current) rivers;
             neighbors = gridDisk g (h3Index current) 1
         in case lowestNeighbor heightMap neighbors current of
              (Some bestNeighbor, lowestHeight) \<Rightarrow>
                if bestNeighbor \<noteq> [] then
                  riverWalk g heightMap seaLevel
                    \<lparr>h3Index = bestNeighbor, lat = 0, lon = 0, height = lowestHeight\<rparr>
                    (pathLength + 1) rivers
                else rivers
            | (None, lowestHeight) \<Rightarrow> rivers)
      else rivers)"
  by pat_completeness auto
termination
  by (relation "measure (\<lambda>(g, heightMap, seaLevel, current, pathLength, rivers). 100 - pathLength)") auto

declare riverWalk.simps [simp del]

text \<open>
  The \<open>for\<close> loop over the trials; trial \<open>i\<close> uses the draw \<open>rnd (k + i)\<close>,
  where \<open>k\<close> counts the draws made before the rivers.
\<close>

function riverLoop ::
  "Grid \<Rightarrow> (nat \<Rightarrow> real) \<Rightarrow> nat \<Rightarrow> (string \<rightharpoonup> real) \<Rightarrow> CellInfo list \<Rightarrow> real \<Rightarrow> nat
     \<Rightarrow> string set \<Rightarrow> error + string set" where
  "riverLoop g rnd k heightMap cands seaLevel i rivers =
     (if i < numRivers then
        (if length cands = 0 then Inr rivers
         else (case arrayGet cands (randomIndex (rnd (k + i)) (length cands)) of
                 None \<Rightarrow> Inl TypeError
               | Some current \<Rightarrow>
                   riverLoop g rnd k heightMap cands seaLevel (i + 1)
                     (riverWalk g heightMap seaLevel current 0 rivers)))
      else Inr rivers)"
  by pat_completeness auto
termination
  by (relation "measure (\<lambda>(g, rnd, k, heightMap, cands, seaLevel, i, rivers). numRivers - i)") auto

declare riverLoop.simps [simp del]

definition simulateRivers ::
  "Grid \<Rightarrow> (nat \<Rightarrow> real) \<Rightarrow> nat \<Rightarrow> CellInfo list \<Rightarrow> real \<Rightarrow> error + string set" where
  "simulateRivers g rnd k cells seaLevel =
     riverLoop g rnd k (buildHeightMap cells) (candidates cells seaLevel) seaLevel 0 {}"

subsection \<open>generateWorld\<close>

definition expandCells :: "Grid \<Rightarrow> int \<Rightarrow> string list" where
  "expandCells g resolution =
     (let res0 = getRes0Cells g in
      if resolution = 0 then res0
      else concat (map (\<lambda>c. cellToChildren g c resolution) res0))"

text \<open>The first pass: the height of one cell.\<close>

definition cellHeight ::
  "WorldGenerator \<Rightarrow> GenerationMethod \<Rightarrow> (string \<rightharpoonup> real) option \<Rightarrow> string \<Rightarrow> real \<Rightarrow> real \<Rightarrow> real" where
  "cellHeight gen generationMethod tectonicHeights c la lo =
     (case heightMapContext gen of
        Some ctx \<Rightarrow>
          (let x = ((lo + 180) / 360) * real_of_int (heightMapWidth gen);
               y = ((90 - la) / 180) * real_of_int (heightMapHeight gen);
               safeX = max 0 (min (heightMapWidth gen - 1) \<lfloor>x\<rfloor>);
               safeY = max 0 (min (heightMapHeight gen - 1) \<lfloor>y\<rfloor>);
               pixel = ctx safeX safeY
           in real (unat pixel) / 255)
      | None \<Rightarrow>
          (case (if generationMethod = Tectonic then tectonicHeights else None) of
             Some heights \<Rightarrow>
               (let heightVal = (case heights c of Some h \<Rightarrow> h | None \<Rightarrow> 0);
                    detail = getNoise gen la lo * 0.1
                in min 1 (max 0 (heightVal + detail)))
           | None \<Rightarrow>
               (let noiseVal = getNoise gen la lo
                in (noiseVal + 1) / 2)))"

definition cellInfo ::
  "WorldGenerator \<Rightarrow> Grid \<Rightarrow> GenerationMethod \<Rightarrow> (string \<rightharpoonup> real) option \<Rightarrow> string \<Rightarrow> CellInfo" where
  "cellInfo gen g generationMethod tectonicHeights c =
     (let ll = cellToLatLng g c
      in \<lparr>h3Index = c, lat = fst ll, lon = snd ll,
          height = cellHeight gen generationMethod tectonicHeights c (fst ll) (snd ll)\<rparr>)"

text \<open>The final pass: climate and biome of one cell.\<close>

definition cellData ::
  "string set \<Rightarrow> real \<Rightarrow> real \<Rightarrow> real \<Rightarrow> real \<Rightarrow> real \<Rightarrow> real \<Rightarrow> CellInfo \<Rightarrow> CellData" where
  "cellData rivers seaLevel sunlight axialTilt rotationSpeed rotationPeriod orbitalPeriod info =
     (let river = (h3Index info \<in> rivers);
          insolation = calculateInsolation (lat info) (lon info) axialTilt sunlight
                         rotationPeriod orbitalPeriod;
          temp = calculateTemperature insolation (height info) seaLevel;
          moist = calculateMoisture (lat info) (height info) seaLevel rotationSpeed;
          moist = (if river then moist + 0.3 else moist);
          b = determineBiome temp moist (height info) seaLevel;
          b = (if river \<and> height info > seaLevel then ''RIVER'' else b)
      in \<lparr>h3Index = h3Index info, lat = lat info, lon = lon info, height = height info,
          temperature = temp, moisture = moist, biome = b, isRiver = river\<rparr>)"

definition generateWorld ::
  "WorldGenerator \<Rightarrow> Grid \<Rightarrow> (nat \<Rightarrow> real) \<Rightarrow> int \<Rightarrow> real \<Rightarrow> real \<Rightarrow> real \<Rightarrow> real \<Rightarrow> real \<Rightarrow> real
     \<Rightarrow> GenerationMethod \<Rightarrow> error + CellData list" where
  "generateWorld gen g rnd resolution seaLevel sunlight axialTilt rotationSpeed rotationPeriod
       orbitalPeriod generationMethod =
     (let allCells = expandCells g resolution
      in case (if generationMethod = Tectonic
               then map_sum id (\<lambda>(m, n). (Some m, n)) (generateTectonicPlates g rnd allCells)
               else Inr (None, 0)) of
           Inl e \<Rightarrow> Inl e
         | Inr (tectonicHeights, k) \<Rightarrow>
             (let cellInfos = map (cellInfo gen g generationMethod tectonicHeights) allCells
              in case simulateRivers g rnd k cellInfos seaLevel of
                   Inl e \<Rightarrow> Inl e
                 | Inr rivers \<Rightarrow>
                     Inr (map (cellData rivers seaLevel sunlight axialTilt rotationSpeed
                                 rotationPeriod orbitalPeriod) cellInfos)))"

subsection \<open>Derived notions\<close>

text \<open>
  The cells one trial marks: trial \<open>i\<close> starts at the candidate its draw
  selects and walks from there, with no river marked before.
\<close>

definition trialCells ::
  "Grid \<Rightarrow> (nat \<Rightarrow> real) \<Rightarrow> nat \<Rightarrow> (string \<rightharpoonup> real) \<Rightarrow> CellInfo list \<Rightarrow> real \<Rightarrow> nat \<Rightarrow> string set" where
  "trialCells g rnd k heightMap cands seaLevel i =
     (case arrayGet cands (randomIndex (rnd (k + i)) (length cands)) of
        Some current \<Rightarrow> riverWalk g heightMap seaLevel current 0 {}
      | None \<Rightarrow> {})"

subsection \<open>Sequences of draws\<close>

text \<open>
  Two sequences for \<open>Math.random\<close>: the same value at every draw, and one
  value for the first \<open>n\<close> draws followed by another.
\<close>

definition constantDraws :: "real \<Rightarrow> nat \<Rightarrow> real" where
  "constantDraws r i = r"

definition switchDraws :: "nat \<Rightarrow> real \<Rightarrow> real \<Rightarrow> nat \<Rightarrow> real" where
  "switchDraws n r r' i = (if i < n then r else r')"

subsection \<open>A small world\<close>

text \<open>
  Four cells on the equator, at longitudes -180, -90, 0 and 90, each adjacent
  to the next and the last to the first. \<open>gridDisk\<close> lists the cell itself
  first, as h3-js does. A cell has two children, which keep its centre.
\<close>

definition exampleLatLng :: "string \<Rightarrow> real \<times> real" where
  "exampleLatLng c =
     (case c of
        [] \<Rightarrow> (0, 90)
      | ch # rest \<Rightarrow>
          if ch = CHR ''a'' then (0, - 180) else if ch = CHR ''b'' then (0, - 90)
          else if ch = CHR ''c'' then (0, 0) else (0, 90))"

definition exampleDisk :: "string \<Rightarrow> int \<Rightarrow> string list" where
  "exampleDisk c k =
     (if c = ''a'' then [''a'', ''b'', ''d'']
      else if c = ''b'' then [''b'', ''a'', ''c'']
      else if c = ''c'' then [''c'', ''b'', ''d'']
      else if c = ''d'' then [''d'', ''c'', ''a'']
      else [c])"

definition exampleGrid :: Grid where
  "exampleGrid =
     \<lparr>getRes0Cells = [''a'', ''b'', ''c'', ''d''],
      cellToChildren = (\<lambda>c r. [c @ ''0'', c @ ''1'']),
      cellToLatLng = exampleLatLng,
      cellToLatLngUndefined = None,
      gridDisk = exampleDisk\<rparr>"

text \<open>
  A noise function within the contract: 1 on one side of a plane through the
  sphere, -1 on the other. On the small world it makes \<open>c\<close> a peak of height
  1 and the other cells of height 0.
\<close>

definition exampleNoise :: "real \<Rightarrow> real \<Rightarrow> real \<Rightarrow> real \<Rightarrow> real" where
  "exampleNoise fraction x y z = (if x > fraction then 1 else - 1)"

definition exampleGenerator :: WorldGenerator where
  "exampleGenerator = newWorldGenerator exampleNoise [0x77, 0x6f]"

text \<open>
  A height map four pixels wide and one high, with red channels 255, 204, 51
  and 0: the heights 1, 0.8, 0.2 and 0 from \<open>a\<close> to \<open>d\<close>.
\<close>

definition examplePixels :: "int \<Rightarrow> int \<Rightarrow> 8 word" where
  "examplePixels x y = (if x = 0 then 255 else if x = 1 then 204 else if x = 2 then 51 else 0)"

definition exampleMapGenerator :: WorldGenerator where
  "exampleMapGenerator = loadHeightMap exampleGenerator examplePixels 4 1"

text \<open>The cells of the first pass on the small world with this height map.\<close>

definition exampleCells :: "CellInfo list" where
  "exampleCells =
     [\<lparr>h3Index = ''a'', lat = 0, lon = - 180, height = 1\<rparr>,
      \<lparr>h3Index = ''b'', lat = 0, lon = - 90, height = 4 / 5\<rparr>,
      \<lparr>h3Index = ''c'', lat = 0, lon = 0, height = 1 / 5\<rparr>,
      \<lparr>h3Index = ''d'', lat = 0, lon = 90, height = 0\<rparr>]"

section \<open>The scan of the neighbours\<close>

lemma neighbor_scan:
  "fold (neighborStep hm cur) ns (b0, l0) = (b, l) \<Longrightarrow>
     l \<le> l0 \<and>
     ((b = b0 \<and> l = l0) \<or> (\<exists>n\<in>set ns. b = Some n \<and> n \<noteq> h3Index cur \<and> hm n = Some l \<and> l < l0)) \<and>
     (\<forall>n\<in>set ns. n \<noteq> h3Index cur \<longrightarrow> (\<forall>h. hm n = Some h \<longrightarrow> l \<le> h))"
proof (induction ns arbitrary: b0 l0)
  case Nil
  then show ?case by simp
next
  case (Cons n ns)
  obtain b1 l1 where st: "neighborStep hm cur n (b0, l0) = (b1, l1)"
    by (cases "neighborStep hm cur n (b0, l0)")
  with Cons.prems have "fold (neighborStep hm cur) ns (b1, l1) = (b, l)" by simp
  from Cons.IH [OF this] have IH:
    "l \<le> l1"
    "(b = b1 \<and> l = l1) \<or> (\<exists>n\<in>set ns. b = Some n \<and> n \<noteq> h3Index cur \<and> hm n = Some l \<and> l < l1)"
    "\<forall>n\<in>set ns. n \<noteq> h3Index cur \<longrightarrow> (\<forall>h. hm n = Some h \<longrightarrow> l \<le> h)"
    by blast+
  from st have s1: "l1 \<le> l0"
    and s2: "(b1 = b0 \<and> l1 = l0) \<or> (b1 = Some n \<and> n \<noteq> h3Index cur \<and> hm n = Some l1 \<and> l1 < l0)"
    and s3: "n \<noteq> h3Index cur \<longrightarrow> (\<forall>h. hm n = Some h \<longrightarrow> l1 \<le> h)"
    by (auto simp: neighborStep_def split: if_splits option.splits)
  show ?case
    using IH s1 s2 s3 by (simp; force)
qed

lemma lowestNeighbor_None:
  "lowestNeighbor hm ns cur = (None, l) \<Longrightarrow>
     l = height cur \<and> (\<forall>n\<in>set ns. n \<noteq> h3Index cur \<longrightarrow> (\<forall>h. hm n = Some h \<longrightarrow> height cur \<le> h))"
  using neighbor_scan [of hm cur ns None "height cur" None l]
  by (auto simp: lowestNeighbor_def)

lemma lowestNeighbor_Some:
  "lowestNeighbor hm ns cur = (Some b, l) \<Longrightarrow>
     b \<in> set ns \<and> b \<noteq> h3Index cur \<and> hm b = Some l \<and> l < height cur \<and>
     (\<forall>n\<in>set ns. n \<noteq> h3Index cur \<longrightarrow> (\<forall>h. hm n = Some h \<longrightarrow> l \<le> h))"
  using neighbor_scan [of hm cur ns None "height cur" "Some b" l]
  by (auto simp: lowestNeighbor_def)

lemma lowestNeighbor_exists:
  assumes "n \<in> set ns" "n \<noteq> h3Index cur" "hm n = Some h" "h < height cur"
  shows "\<exists>b l. lowestNeighbor hm ns cur = (Some b, l)"
proof (cases "lowestNeighbor hm ns cur")
  case (Pair b l)
  show ?thesis
  proof (cases b)
    case None
    with Pair lowestNeighbor_None [of hm ns cur l] assms show ?thesis by force
  next
    case (Some x)
    with Pair show ?thesis by simp
  qed
qed

lemma buildHeightMap_fold:
  "fold (\<lambda>c m. m(h3Index c \<mapsto> height c)) cells m0 k = Some h \<Longrightarrow>
     m0 k = Some h \<or> (\<exists>c\<in>set cells. h3Index c = k \<and> height c = h)"
  by (induction cells arbitrary: m0) (fastforce split: if_splits)+

lemma buildHeightMap_Some:
  "buildHeightMap cells k = Some h \<Longrightarrow> \<exists>c\<in>set cells. h3Index c = k \<and> height c = h"
  using buildHeightMap_fold [of cells Map.empty k h] by (simp add: buildHeightMap_def)


section \<open>The walk of one river\<close>

lemma riverWalk_stop:
  "\<not> (height cur > sl \<and> pl < 100) \<Longrightarrow> riverWalk g hm sl cur pl R = R"
  by (subst riverWalk.simps) auto

lemma riverWalk_cases:
  obtains
    (stop) "\<not> (height cur > sl \<and> pl < 100)"
           "\<And>R. riverWalk g hm sl cur pl R = R"
  | (rest) "height cur > sl" "pl < 100"
           "fst (lowestNeighbor hm (gridDisk g (h3Index cur) 1) cur) \<in> {None, Some []}"
           "\<And>R. riverWalk g hm sl cur pl R = insert (h3Index cur) R"
  | (move) b l where "height cur > sl" "pl < 100"
           "lowestNeighbor hm (gridDisk g (h3Index cur) 1) cur = (Some b, l)" "b \<noteq> []"
           "\<And>R. riverWalk g hm sl cur pl R =
                 riverWalk g hm sl \<lparr>h3Index = b, lat = 0, lon = 0, height = l\<rparr> (pl + 1)
                   (insert (h3Index cur) R)"
proof (cases "height cur > sl \<and> pl < 100")
  case False
  then have "\<And>R. riverWalk g hm sl cur pl R = R"
    by (rule riverWalk_stop)
  with False show ?thesis by (rule stop)
next
  case True
  obtain bo l where ln: "lowestNeighbor hm (gridDisk g (h3Index cur) 1) cur = (bo, l)"
    by (cases "lowestNeighbor hm (gridDisk g (h3Index cur) 1) cur")
  show ?thesis
  proof (cases "bo = None \<or> bo = Some []")
    case True
    with \<open>height cur > sl \<and> pl < 100\<close> ln
    have "\<And>R. riverWalk g hm sl cur pl R = insert (h3Index cur) R"
      by (subst riverWalk.simps) auto
    with True \<open>height cur > sl \<and> pl < 100\<close> ln show ?thesis
      by (intro rest) auto
  next
    case False
    then obtain b where b: "bo = Some b" "b \<noteq> []" by (cases bo) auto
    with \<open>height cur > sl \<and> pl < 100\<close> ln
    have "\<And>R. riverWalk g hm sl cur pl R =
                 riverWalk g hm sl \<lparr>h3Index = b, lat = 0, lon = 0, height = l\<rparr> (pl + 1)
                   (insert (h3Index cur) R)"
      by (subst riverWalk.simps) simp
    with b \<open>height cur > sl \<and> pl < 100\<close> ln show ?thesis
      by (intro move [of b l]) auto
  qed
qed

lemma riverWalk_union:
  "riverWalk g hm sl cur pl R = R \<union> riverWalk g hm sl cur pl {}"
proof (induction "100 - pl" arbitrary: cur pl R)
  case 0
  then have "\<not> (height cur > sl \<and> pl < 100)" by simp
  then show ?case by (simp add: riverWalk_stop)
next
  case (Suc n)
  show ?case
  proof (cases rule: riverWalk_cases [where cur=cur and sl=sl and pl=pl and g=g and hm=hm])
    case stop
    then show ?thesis by simp
  next
    case rest
    then show ?thesis by simp
  next
    case (move b l)
    from Suc.hyps(2) have n: "n = 100 - (pl + 1)" by simp
    let ?next = "\<lparr>h3Index = b, lat = 0, lon = 0, height = l\<rparr>"
    have IH: "riverWalk g hm sl ?next (pl + 1) S = S \<union> riverWalk g hm sl ?next (pl + 1) {}" for S
      by (rule Suc.hyps(1) [OF n])
    have "riverWalk g hm sl cur pl R = riverWalk g hm sl ?next (pl + 1) (insert (h3Index cur) R)"
      by (rule move(5))
    also have "\<dots> = insert (h3Index cur) R \<union> riverWalk g hm sl ?next (pl + 1) {}"
      by (rule IH)
    finally have 1: "riverWalk g hm sl cur pl R =
        insert (h3Index cur) R \<union> riverWalk g hm sl ?next (pl + 1) {}" .
    have "riverWalk g hm sl cur pl {} = riverWalk g hm sl ?next (pl + 1) (insert (h3Index cur) {})"
      by (rule move(5))
    also have "\<dots> = insert (h3Index cur) {} \<union> riverWalk g hm sl ?next (pl + 1) {}"
      by (rule IH)
    finally have 2: "riverWalk g hm sl cur pl {} =
        insert (h3Index cur) {} \<union> riverWalk g hm sl ?next (pl + 1) {}" .
    have "insert (h3Index cur) R \<union> riverWalk g hm sl ?next (pl + 1) {}
          = R \<union> (insert (h3Index cur) {} \<union> riverWalk g hm sl ?next (pl + 1) {})"
      by blast
    moreover note 1 2
    ultimately show ?thesis by auto
  qed
qed

lemma riverWalk_card:
  "finite (riverWalk g hm sl cur pl {}) \<and> card (riverWalk g hm sl cur pl {}) \<le> 100 - pl"
proof (induction "100 - pl" arbitrary: cur pl)
  case 0
  then have "\<not> (height cur > sl \<and> pl < 100)" by simp
  then show ?case by (simp add: riverWalk_stop)
next
  case (Suc n)
  show ?case
  proof (cases rule: riverWalk_cases [where cur=cur and sl=sl and pl=pl and g=g and hm=hm])
    case stop
    then show ?thesis by simp
  next
    case rest
    then show ?thesis by simp
  next
    case (move b l)
    from Suc.hyps(2) have n: "n = 100 - (pl + 1)" by simp
    let ?W = "riverWalk g hm sl \<lparr>h3Index = b, lat = 0, lon = 0, height = l\<rparr> (pl + 1) {}"
    have eq: "riverWalk g hm sl cur pl {} = insert (h3Index cur) ?W"
      using move(5) [of "{}"] riverWalk_union [of g hm sl _ "pl + 1" "{h3Index cur}"] by simp
    from Suc.hyps(1) [OF n] have fin: "finite ?W" and c: "card ?W \<le> 100 - (pl + 1)" by blast+
    have "card (insert (h3Index cur) ?W) \<le> Suc (card ?W)"
      using fin by (simp add: card_insert_if)
    with fin c move(2) show ?thesis unfolding eq by simp
  qed
qed

lemma riverWalk_above:
  assumes "\<exists>c\<in>set cells. h3Index c = h3Index cur \<and> height c = height cur"
  shows "\<forall>i\<in>riverWalk g (buildHeightMap cells) sl cur pl {}.
           \<exists>c\<in>set cells. h3Index c = i \<and> height c > sl"
  using assms
proof (induction "100 - pl" arbitrary: cur pl)
  case 0
  then have "\<not> (height cur > sl \<and> pl < 100)" by simp
  then show ?case by (simp add: riverWalk_stop)
next
  case (Suc n)
  show ?case
  proof (cases rule: riverWalk_cases [where cur=cur and sl=sl and pl=pl and g=g and hm="buildHeightMap cells"])
    case stop
    then show ?thesis by simp
  next
    case rest
    with Suc.prems show ?thesis by auto
  next
    case (move b l)
    from Suc.hyps(2) have n: "n = 100 - (pl + 1)" by simp
    let ?next = "\<lparr>h3Index = b, lat = 0, lon = 0, height = l\<rparr>"
    let ?W = "riverWalk g (buildHeightMap cells) sl ?next (pl + 1) {}"
    have eq: "riverWalk g (buildHeightMap cells) sl cur pl {} = insert (h3Index cur) ?W"
      using move(5) [of "{}"] riverWalk_union [of g _ sl _ "pl + 1" "{h3Index cur}"] by simp
    from lowestNeighbor_Some [OF move(3)] have "buildHeightMap cells b = Some l" by simp
    from buildHeightMap_Some [OF this]
    have "\<exists>c\<in>set cells. h3Index c = h3Index ?next \<and> height c = height ?next" by simp
    from Suc.hyps(1) [OF n this]
    have "\<forall>i\<in>?W. \<exists>c\<in>set cells. h3Index c = i \<and> height c > sl" .
    with Suc.prems move(1) show ?thesis unfolding eq by auto
  qed
qed

lemma riverWalk_move:
  assumes "height cur > sl" "pl < 100" "[] \<notin> set (gridDisk g (h3Index cur) 1)"
    and "n \<in> set (gridDisk g (h3Index cur) 1)" "n \<noteq> h3Index cur" "hm n = Some h" "h < height cur"
  shows "\<exists>b l. b \<in> set (gridDisk g (h3Index cur) 1) \<and> b \<noteq> h3Index cur \<and> hm b = Some l \<and>
           l < height cur \<and>
           (\<forall>n\<in>set (gridDisk g (h3Index cur) 1). n \<noteq> h3Index cur \<longrightarrow>
              (\<forall>h. hm n = Some h \<longrightarrow> l \<le> h)) \<and>
           riverWalk g hm sl cur pl R =
             riverWalk g hm sl \<lparr>h3Index = b, lat = 0, lon = 0, height = l\<rparr> (pl + 1)
               (insert (h3Index cur) R)"
proof -
  have "\<exists>b l. lowestNeighbor hm (gridDisk g (h3Index cur) 1) cur = (Some b, l)"
    using assms(4-7) by (rule lowestNeighbor_exists)
  then obtain b l where
    ln: "lowestNeighbor hm (gridDisk g (h3Index cur) 1) cur = (Some b, l)" by blast
  note p = lowestNeighbor_Some [OF ln]
  from p assms(3) have "b \<noteq> []" by auto
  with ln assms(1,2) have "riverWalk g hm sl cur pl R =
             riverWalk g hm sl \<lparr>h3Index = b, lat = 0, lon = 0, height = l\<rparr> (pl + 1)
               (insert (h3Index cur) R)"
    by (subst riverWalk.simps) simp
  with p show ?thesis by blast
qed

lemma riverWalk_local_minimum:
  assumes "height cur > sl" "pl < 100"
    and "\<forall>n\<in>set (gridDisk g (h3Index cur) 1). n \<noteq> h3Index cur \<longrightarrow>
           (\<forall>h. hm n = Some h \<longrightarrow> height cur \<le> h)"
  shows "riverWalk g hm sl cur pl R = insert (h3Index cur) R"
proof (cases "lowestNeighbor hm (gridDisk g (h3Index cur) 1) cur")
  case (Pair bo l)
  show ?thesis
  proof (cases bo)
    case None
    with Pair assms(1,2) show ?thesis by (subst riverWalk.simps) simp
  next
    case (Some b)
    from lowestNeighbor_Some [OF Pair [unfolded Some]] assms(3) have False by force
    then show ?thesis ..
  qed
qed

section \<open>The trials\<close>

lemma randomIndex_range:
  assumes "0 \<le> r" "r < 1" "0 < n"
  shows "0 \<le> randomIndex r n \<and> randomIndex r n < int n"
proof -
  have "0 \<le> r * real n" using assms by simp
  moreover have "r * real n < real n" using assms by simp
  ultimately show ?thesis
    unfolding randomIndex_def by (simp add: floor_less_iff)
qed

lemma arrayGet_random:
  assumes "0 \<le> r" "r < 1" "xs \<noteq> []"
  shows "\<exists>x\<in>set xs. arrayGet xs (randomIndex r (length xs)) = Some x"
proof -
  from randomIndex_range [OF assms(1,2), of "length xs"] assms(3)
  have r: "0 \<le> randomIndex r (length xs)" "randomIndex r (length xs) < int (length xs)"
    by simp_all
  then have "nat (randomIndex r (length xs)) < length xs" by linarith
  then have "xs ! nat (randomIndex r (length xs)) \<in> set xs" by (rule nth_mem)
  with r show ?thesis by (simp add: arrayGet_def)
qed

lemma arrayGet_Some: "arrayGet xs i = Some x \<Longrightarrow> x \<in> set xs"
  by (auto simp: arrayGet_def split: if_splits)

lemma riverLoop_empty: "riverLoop g rnd k hm [] sl i R = Inr R"
  by (subst riverLoop.simps) simp

lemma riverLoop_done: "\<not> i < numRivers \<Longrightarrow> riverLoop g rnd k hm cands sl i R = Inr R"
  by (subst riverLoop.simps) simp

lemma riverLoop_step:
  "i < numRivers \<Longrightarrow> cands \<noteq> [] \<Longrightarrow>
   riverLoop g rnd k hm cands sl i R =
     (case arrayGet cands (randomIndex (rnd (k + i)) (length cands)) of
        None \<Rightarrow> Inl TypeError
      | Some current \<Rightarrow> riverLoop g rnd k hm cands sl (i + 1) (riverWalk g hm sl current 0 R))"
  by (subst riverLoop.simps) simp

lemma riverLoop_union:
  "cands \<noteq> [] \<Longrightarrow> riverLoop g rnd k hm cands sl i R = Inr S \<Longrightarrow>
     S = R \<union> (\<Union>j\<in>{i..<numRivers}. trialCells g rnd k hm cands sl j)"
proof (induction "numRivers - i" arbitrary: i R)
  case 0
  then show ?case by (simp add: riverLoop_done)
next
  case (Suc n)
  then have i: "i < numRivers" and n: "n = numRivers - (i + 1)" by simp_all
  from Suc.prems i obtain c where
    c: "arrayGet cands (randomIndex (rnd (k + i)) (length cands)) = Some c"
    and rec: "riverLoop g rnd k hm cands sl (i + 1) (riverWalk g hm sl c 0 R) = Inr S"
    by (auto simp: riverLoop_step split: option.splits)
  from Suc.hyps(1) [OF n Suc.prems(1) rec]
  have "S = riverWalk g hm sl c 0 R \<union> (\<Union>j\<in>{i + 1..<numRivers}. trialCells g rnd k hm cands sl j)" .
  moreover have "riverWalk g hm sl c 0 R = R \<union> trialCells g rnd k hm cands sl i"
    using c riverWalk_union [of g hm sl c 0 R] by (simp add: trialCells_def)
  moreover have "{i..<numRivers} = insert i {i + 1..<numRivers}"
    using i by auto
  ultimately show ?case by auto
qed

lemma riverLoop_total:
  assumes "randomContract rnd"
  shows "\<exists>S. riverLoop g rnd k hm cands sl i R = Inr S"
proof (cases "cands = []")
  case True
  then show ?thesis by (simp add: riverLoop_empty)
next
  case False
  show ?thesis
  proof (induction "numRivers - i" arbitrary: i R)
    case 0
    then show ?case by (simp add: riverLoop_done)
  next
    case (Suc n)
    then have i: "i < numRivers" and n: "n = numRivers - (i + 1)" by simp_all
    from assms have "0 \<le> rnd (k + i)" "rnd (k + i) < 1" by (simp_all add: randomContract_def)
    from arrayGet_random [OF this False] obtain c where
      "arrayGet cands (randomIndex (rnd (k + i)) (length cands)) = Some c" by blast
    with Suc.hyps(1) [OF n] i False show ?case by (simp add: riverLoop_step)
  qed
qed

lemma riverLoop_cong:
  assumes "\<forall>j<numRivers. r1 (k + j) = r2 (k + j)"
  shows "riverLoop g r1 k hm cands sl i R = riverLoop g r2 k hm cands sl i R"
proof (cases "cands = []")
  case True
  then show ?thesis by (simp add: riverLoop_empty)
next
  case False
  show ?thesis
  proof (induction "numRivers - i" arbitrary: i R)
    case 0
    then show ?case by (simp add: riverLoop_done)
  next
    case (Suc n)
    then have i: "i < numRivers" and n: "n = numRivers - (i + 1)" by simp_all
    from assms i have "r1 (k + i) = r2 (k + i)" by simp
    with Suc.hyps(1) [OF n] i False show ?case
      by (simp add: riverLoop_step split: option.splits)
  qed
qed

lemma trialCells_above:
  "\<forall>i\<in>trialCells g rnd k (buildHeightMap cells) (candidates cells sl) sl j.
      \<exists>c\<in>set cells. h3Index c = i \<and> height c > sl"
proof (cases "arrayGet (candidates cells sl) (randomIndex (rnd (k + j)) (length (candidates cells sl)))")
  case None
  then show ?thesis by (simp add: trialCells_def)
next
  case (Some c)
  then have "c \<in> set cells" by (auto dest: arrayGet_Some simp: candidates_def)
  then have "\<exists>c'\<in>set cells. h3Index c' = h3Index c \<and> height c' = height c" by blast
  from riverWalk_above [OF this] Some show ?thesis by (simp add: trialCells_def)
qed

lemma simulateRivers_union:
  "simulateRivers g rnd k cells sl = Inr S \<Longrightarrow>
     S = (if candidates cells sl = [] then {}
          else (\<Union>j\<in>{0..<numRivers}. trialCells g rnd k (buildHeightMap cells) (candidates cells sl) sl j))"
  using riverLoop_union [of "candidates cells sl" g rnd k "buildHeightMap cells" sl 0 "{}" S]
  by (auto simp: simulateRivers_def riverLoop_empty)

lemma simulateRivers_above:
  assumes "simulateRivers g rnd k cells sl = Inr S" "i \<in> S"
  shows "\<exists>c\<in>set cells. h3Index c = i \<and> height c > sl"
  using simulateRivers_union [OF assms(1)] assms(2) trialCells_above [of g rnd k cells sl]
  by (auto split: if_splits)

section \<open>Heights and climate of one cell\<close>

lemma getNoise_range:
  assumes "noiseContract (noise3D gen)"
  shows "- 1 \<le> getNoise gen la lo \<and> getNoise gen la lo \<le> 1"
proof -
  define x where "x = 1 * cos (la * pi / 180) * cos (lo * pi / 180)"
  define y where "y = 1 * cos (la * pi / 180) * sin (lo * pi / 180)"
  define z where "z = 1 * sin (la * pi / 180)"
  from assms have
    a: "- 1 \<le> noise3D gen x y z" "noise3D gen x y z \<le> 1" and
    b: "- 1 \<le> noise3D gen (x * 2) (y * 2) (z * 2)" "noise3D gen (x * 2) (y * 2) (z * 2) \<le> 1" and
    c: "- 1 \<le> noise3D gen (x * 4) (y * 4) (z * 4)" "noise3D gen (x * 4) (y * 4) (z * 4) \<le> 1"
    by (simp_all add: noiseContract_def)
  have "getNoise gen la lo =
          (noise3D gen x y z + noise3D gen (x * 2) (y * 2) (z * 2) * 0.5
             + noise3D gen (x * 4) (y * 4) (z * 4) * 0.25) / 1.75"
    by (simp add: getNoise_def Let_def x_def y_def z_def)
  with a b c show ?thesis by simp
qed

lemma byte_range: "0 \<le> real (unat (p :: 8 word)) \<and> real (unat p) \<le> 255"
proof
  show "0 \<le> real (unat p)" by (rule of_nat_0_le_iff)
  have "unat p < 2 ^ 8" using unsigned_less [of p] by simp
  then have "unat p \<le> 255" by simp
  then have "real (unat p) \<le> real 255" by (rule of_nat_mono)
  also have "real 255 = 255" by simp
  finally show "real (unat p) \<le> 255" .
qed

lemma cellHeight_range:
  assumes "heightMapContext gen = None \<and> (m = Noise \<or> th = None) \<longrightarrow> noiseContract (noise3D gen)"
  shows "0 \<le> cellHeight gen m th c la lo \<and> cellHeight gen m th c la lo \<le> 1"
proof (cases "heightMapContext gen")
  case (Some ctx)
  then show ?thesis
    using byte_range by (simp add: cellHeight_def Let_def)
next
  case None
  show ?thesis
  proof (cases "m = Noise \<or> th = None")
    case True
    with None assms have "noiseContract (noise3D gen)" by blast
    from getNoise_range [OF this, of la lo]
    have "0 \<le> (getNoise gen la lo + 1) / 2" "(getNoise gen la lo + 1) / 2 \<le> 1" by simp_all
    with None True show ?thesis
      by (auto simp: cellHeight_def Let_def)
  next
    case False
    then obtain heights where "m = Tectonic" "th = Some heights"
      by (cases m; cases th) auto
    with None show ?thesis
      by (simp add: cellHeight_def Let_def)
  qed
qed

lemma calculateMoisture_range:
  "0 \<le> calculateMoisture la h sl rs \<and> calculateMoisture la h sl rs \<le> 1"
  by (simp add: calculateMoisture_def Let_def)

lemma determineBiome_not_river: "determineBiome t m e sl \<noteq> ''RIVER''"
  by (simp add: determineBiome_def)

lemma determineBiome_ocean: "e \<le> sl \<Longrightarrow> determineBiome t m e sl = ''OCEAN''"
  by (simp add: determineBiome_def)

section \<open>The passes of generateWorld\<close>

lemma generateWorld_Inr:
  assumes "generateWorld gen g rnd res sl su ax rs rp op m = Inr ws"
  obtains th k rivers where
    "simulateRivers g rnd k (map (cellInfo gen g m th) (expandCells g res)) sl = Inr rivers"
    "ws = map (cellData rivers sl su ax rs rp op) (map (cellInfo gen g m th) (expandCells g res))"
    "m = Noise \<longrightarrow> th = None \<and> k = 0"
    "m = Tectonic \<longrightarrow> (\<exists>hm. th = Some hm \<and> generateTectonicPlates g rnd (expandCells g res) = Inr (hm, k))"
proof (cases m)
  case Noise
  with assms obtain rivers where
    "simulateRivers g rnd 0 (map (cellInfo gen g m None) (expandCells g res)) sl = Inr rivers"
    "ws = map (cellData rivers sl su ax rs rp op) (map (cellInfo gen g m None) (expandCells g res))"
    by (auto simp: generateWorld_def Let_def split: sum.splits)
  with Noise show ?thesis by (intro that [where th = None and k = 0]) auto
next
  case Tectonic
  with assms obtain hm k where
    p: "generateTectonicPlates g rnd (expandCells g res) = Inr (hm, k)"
    by (cases "generateTectonicPlates g rnd (expandCells g res)")
       (auto simp: generateWorld_def Let_def)
  with assms Tectonic obtain rivers where
    "simulateRivers g rnd k (map (cellInfo gen g m (Some hm)) (expandCells g res)) sl = Inr rivers"
    "ws = map (cellData rivers sl su ax rs rp op)
            (map (cellInfo gen g m (Some hm)) (expandCells g res))"
    by (auto simp: generateWorld_def Let_def split: sum.splits)
  with Tectonic p show ?thesis by (intro that [where th = "Some hm" and k = k]) auto
qed

lemma those_Some:
  "(\<forall>x\<in>set xs. x \<noteq> None) \<Longrightarrow> \<exists>ys. those xs = Some ys"
  by (induction xs) auto

lemma generateTectonicPlates_total:
  assumes "randomContract rnd" "cells \<noteq> [] \<or> cellToLatLngUndefined g \<noteq> None"
  shows "\<exists>hm k. generateTectonicPlates g rnd cells = Inr (hm, k)"
proof -
  have "latLngOf g (arrayGet cells (randomIndex (rnd i) (length cells))) \<noteq> None" for i
  proof (cases "cells = []")
    case True
    with assms(2) show ?thesis by (simp add: latLngOf_def arrayGet_def)
  next
    case False
    from assms(1) have "0 \<le> rnd i" "rnd i < 1" by (simp_all add: randomContract_def)
    from arrayGet_random [OF this False] show ?thesis by (auto simp: latLngOf_def)
  qed
  then have "\<exists>ys. those (map (latLngOf g)
      (map (\<lambda>i. arrayGet cells (randomIndex (rnd (1 + i)) (length cells))) ns)) = Some ys" for ns
    by (intro those_Some) auto
  then show ?thesis
    by (auto simp: generateTectonicPlates_def Let_def split: option.splits)
qed

lemma generateTectonicPlates_cong:
  assumes "\<forall>j < 1 + 2 * nat (8 + \<lfloor>r1 0 * 5\<rfloor>). r1 j = r2 j"
  shows "generateTectonicPlates g r1 cells = generateTectonicPlates g r2 cells"
proof -
  from assms have 0: "r1 0 = r2 0" by simp
  define K where "K = nat (8 + \<lfloor>r1 0 * 5\<rfloor>)"
  have c: "map (\<lambda>i. arrayGet cells (randomIndex (r1 (1 + i)) (length cells))) [0..<K]
         = map (\<lambda>i. arrayGet cells (randomIndex (r2 (1 + i)) (length cells))) [0..<K]"
    using assms by (intro map_cong) (auto simp: K_def)
  have h: "map (\<lambda>i. r1 (1 + K + i) * 0.8 + 0.1) [0..<K] = map (\<lambda>i. r2 (1 + K + i) * 0.8 + 0.1) [0..<K]"
    using assms by (intro map_cong) (auto simp: K_def)
  show ?thesis
    unfolding generateTectonicPlates_def Let_def 0 [symmetric] K_def [symmetric]
    by (simp only: c h)
qed

lemma generateTectonicPlates_draws:
  assumes "randomContract rnd" "generateTectonicPlates g rnd cells = Inr (hm, k)"
  shows "k \<le> 25"
proof -
  from assms(1) have "0 \<le> rnd 0" "rnd 0 < 1" by (simp_all add: randomContract_def)
  then have "\<lfloor>rnd 0 * 5\<rfloor> \<le> 4" by (simp add: floor_le_iff)
  then have "nat (8 + \<lfloor>rnd 0 * 5\<rfloor>) \<le> 12" by linarith
  with assms(2) show ?thesis
    by (auto simp: generateTectonicPlates_def Let_def split: option.splits)
qed

lemma simulateRivers_total:
  "randomContract rnd \<Longrightarrow> \<exists>S. simulateRivers g rnd k cells sl = Inr S"
  by (simp add: simulateRivers_def riverLoop_total)

lemma simulateRivers_cong:
  "\<forall>j<numRivers. r1 (k + j) = r2 (k + j) \<Longrightarrow>
     simulateRivers g r1 k cells sl = simulateRivers g r2 k cells sl"
  by (simp add: simulateRivers_def riverLoop_cong)

lemma generateWorld_total:
  assumes "randomContract rnd"
    "m = Tectonic \<longrightarrow> expandCells g res \<noteq> [] \<or> cellToLatLngUndefined g \<noteq> None"
  shows "\<exists>ws. generateWorld gen g rnd res sl su ax rs rp op m = Inr ws"
proof (cases m)
  case Noise
  moreover from simulateRivers_total [OF assms(1)] obtain S where
    "simulateRivers g rnd 0 (map (cellInfo gen g m None) (expandCells g res)) sl = Inr S"
    by blast
  ultimately show ?thesis
    by (simp add: generateWorld_def Let_def)
next
  case Tectonic
  with assms(2) generateTectonicPlates_total [OF assms(1), of "expandCells g res" g]
  obtain hm k where "generateTectonicPlates g rnd (expandCells g res) = Inr (hm, k)" by blast
  moreover from simulateRivers_total [OF assms(1)] obtain S where
    "simulateRivers g rnd k (map (cellInfo gen g m (Some hm)) (expandCells g res)) sl = Inr S"
    by blast
  ultimately show ?thesis using Tectonic
    by (simp add: generateWorld_def Let_def)
qed

lemma generateWorld_cong:
  assumes "randomContract r1" "\<forall>j<75. r1 j = r2 j"
  shows "generateWorld gen g r1 res sl su ax rs rp op m = generateWorld gen g r2 res sl su ax rs rp op m"
proof (cases m)
  case Noise
  from assms(2) have "\<forall>j<numRivers. r1 (0 + j) = r2 (0 + j)" by (simp add: numRivers_def)
  from simulateRivers_cong [OF this] Noise show ?thesis
    by (simp add: generateWorld_def Let_def)
next
  case Tectonic
  from assms(1) have "0 \<le> r1 0" "r1 0 < 1" by (simp_all add: randomContract_def)
  then have "\<lfloor>r1 0 * 5\<rfloor> \<le> 4" by (simp add: floor_le_iff)
  then have K: "nat (8 + \<lfloor>r1 0 * 5\<rfloor>) \<le> 12" by linarith
  with assms(2) have "\<forall>j < 1 + 2 * nat (8 + \<lfloor>r1 0 * 5\<rfloor>). r1 j = r2 j" by simp
  from generateTectonicPlates_cong [OF this]
  have p: "generateTectonicPlates g r1 cells = generateTectonicPlates g r2 cells" for cells .
  show ?thesis
  proof (cases "generateTectonicPlates g r2 (expandCells g res)")
    case (Inl e)
    with p [of "expandCells g res"] Tectonic show ?thesis
      by (simp add: generateWorld_def Let_def)
  next
    case (Inr r)
    obtain hm k where r: "r = (hm, k)" by (cases r)
    from Inr r p [of "expandCells g res"]
    have 1: "generateTectonicPlates g r1 (expandCells g res) = Inr (hm, k)" by simp
    from generateTectonicPlates_draws [OF assms(1) 1] have "k \<le> 25" .
    with assms(2) have "\<forall>j<numRivers. r1 (k + j) = r2 (k + j)" by (simp add: numRivers_def)
    from simulateRivers_cong [OF this] Inr r 1 Tectonic show ?thesis
      by (simp add: generateWorld_def Let_def)
  qed
qed

section \<open>The fields of a cell record\<close>

lemma cellHeight_indep:
  "m = Noise \<or> heightMapContext gen \<noteq> None \<Longrightarrow>
     cellHeight gen m th c la lo = cellHeight gen m th' c la lo"
  by (auto simp: cellHeight_def split: option.splits)

lemma truncate_cellData:
  "CellInfo.truncate (cellData rivers sl su ax rs rp op info) = info"
  by (cases info) (simp add: CellInfo.truncate_def cellData_def Let_def)

lemma cellData_fields:
  "h3Index (cellData rivers sl su ax rs rp op info) = h3Index info"
  "lat (cellData rivers sl su ax rs rp op info) = lat info"
  "lon (cellData rivers sl su ax rs rp op info) = lon info"
  "height (cellData rivers sl su ax rs rp op info) = height info"
  "isRiver (cellData rivers sl su ax rs rp op info) = (h3Index info \<in> rivers)"
  "temperature (cellData rivers sl su ax rs rp op info) =
     calculateTemperature (calculateInsolation (lat info) (lon info) ax su rp op) (height info) sl"
  by (simp_all add: cellData_def Let_def)

lemma cellData_moisture:
  "moisture (cellData rivers sl su ax rs rp op info) =
     calculateMoisture (lat info) (height info) sl rs + (if h3Index info \<in> rivers then 0.3 else 0)"
  by (simp add: cellData_def Let_def)

lemma cellData_biome:
  "biome (cellData rivers sl su ax rs rp op info) =
     (if h3Index info \<in> rivers \<and> height info > sl then ''RIVER''
      else determineBiome (temperature (cellData rivers sl su ax rs rp op info))
             (moisture (cellData rivers sl su ax rs rp op info)) (height info) sl)"
  by (simp add: cellData_def Let_def)

lemma cellInfo_fields:
  "h3Index (cellInfo gen g m th c) = c"
  "lat (cellInfo gen g m th c) = fst (cellToLatLng g c)"
  "lon (cellInfo gen g m th c) = snd (cellToLatLng g c)"
  "height (cellInfo gen g m th c) = cellHeight gen m th c (fst (cellToLatLng g c)) (snd (cellToLatLng g c))"
  by (simp_all add: cellInfo_def Let_def)


text \<open>
  In \<open>generateWorld\<close> the tectonic method always has its height map, so the
  noise contract matters only for the noise method without a loaded image.
\<close>

lemma generateWorld_height_range:
  assumes "heightMapContext gen = None \<and> m = Noise \<longrightarrow> noiseContract (noise3D gen)"
    and "generateWorld gen g rnd res sl su ax rs rp op m = Inr ws"
    and "c \<in> set ws"
  shows "0 \<le> height c \<and> height c \<le> 1"
proof -
  from assms(2) obtain th k rivers where
    ws: "ws = map (cellData rivers sl su ax rs rp op) (map (cellInfo gen g m th) (expandCells g res))"
    and th: "m = Tectonic \<longrightarrow> (\<exists>hm. th = Some hm \<and>
               generateTectonicPlates g rnd (expandCells g res) = Inr (hm, k))"
    by (rule generateWorld_Inr)
  from ws assms(3) obtain x where c: "c = cellData rivers sl su ax rs rp op (cellInfo gen g m th x)"
    by auto
  from th assms(1)
  have "heightMapContext gen = None \<and> (m = Noise \<or> th = None) \<longrightarrow> noiseContract (noise3D gen)"
    by (cases m) auto
  from cellHeight_range [OF this] show ?thesis
    unfolding c by (simp add: cellData_def cellInfo_def Let_def)
qed

lemma generateWorld_ranges:
  assumes "heightMapContext gen = None \<and> m = Noise \<longrightarrow> noiseContract (noise3D gen)"
    and "generateWorld gen g rnd res sl su ax rs rp op m = Inr ws"
    and "c \<in> set ws"
  shows "0 \<le> height c \<and> height c \<le> 1 \<and> 0 \<le> moisture c \<and>
         (if isRiver c then moisture c \<le> 1.3 else moisture c \<le> 1)"
proof -
  from assms(2) obtain th k rivers where
    ws: "ws = map (cellData rivers sl su ax rs rp op) (map (cellInfo gen g m th) (expandCells g res))"
    by (rule generateWorld_Inr)
  with assms(3) obtain x where c: "c = cellData rivers sl su ax rs rp op (cellInfo gen g m th x)"
    by auto
  from calculateMoisture_range [of "lat (cellInfo gen g m th x)" "height (cellInfo gen g m th x)" sl rs]
  have "0 \<le> moisture c \<and> (if isRiver c then moisture c \<le> 1.3 else moisture c \<le> 1)"
    unfolding c by (simp add: cellData_fields cellData_moisture)
  with generateWorld_height_range [OF assms] show ?thesis by blast
qed

section \<open>The small world, evaluated\<close>

lemmas example_defs =
  exampleGrid_def exampleLatLng_def exampleDisk_def exampleNoise_def exampleGenerator_def
  examplePixels_def exampleMapGenerator_def newWorldGenerator_def loadHeightMap_def
  seedFraction_def seedHash_def constantDraws_def switchDraws_def exampleCells_def

lemmas world_defs =
  generateWorld_def cellInfo_def cellHeight_def expandCells_def getNoise_def
  simulateRivers_def candidates_def buildHeightMap_def riverLoop.simps riverWalk.simps numRivers_def
  arrayGet_def randomIndex_def lowestNeighbor_def neighborStep_def cellData_def calculateInsolation_def
  calculateMoisture_def calculateTemperature_def determineBiome_def

lemma example_noise_world:
  "generateWorld exampleGenerator exampleGrid (constantDraws 0) 0 (1 / 2) 1 23.5 1 1 365 Noise =
     Inr [\<lparr>h3Index = ''a'', lat = 0, lon = - 180, height = 0,
            temperature = 30, moisture = 9 / 10, biome = ''OCEAN'', isRiver = False\<rparr>,
          \<lparr>h3Index = ''b'', lat = 0, lon = - 90, height = 0,
            temperature = 30, moisture = 9 / 10, biome = ''OCEAN'', isRiver = False\<rparr>,
          \<lparr>h3Index = ''c'', lat = 0, lon = 0, height = 1,
            temperature = - 10, moisture = 13 / 10, biome = ''RIVER'', isRiver = True\<rparr>,
          \<lparr>h3Index = ''d'', lat = 0, lon = 90, height = 0,
            temperature = 30, moisture = 9 / 10, biome = ''OCEAN'', isRiver = False\<rparr>]"
  by (simp add: world_defs example_defs)

lemma example_map_world_0:
  "generateWorld exampleMapGenerator exampleGrid (constantDraws 0) 0 (1 / 10) 1 23.5 1 1 365 Noise =
     Inr [\<lparr>h3Index = ''a'', lat = 0, lon = - 180, height = 1,
            temperature = - 42, moisture = 13 / 10, biome = ''RIVER'', isRiver = True\<rparr>,
          \<lparr>h3Index = ''b'', lat = 0, lon = - 90, height = 4 / 5,
            temperature = - 26, moisture = 1, biome = ''ICE'', isRiver = False\<rparr>,
          \<lparr>h3Index = ''c'', lat = 0, lon = 0, height = 1 / 5,
            temperature = 22, moisture = 19 / 20, biome = ''TROPICAL_RAINFOREST'', isRiver = False\<rparr>,
          \<lparr>h3Index = ''d'', lat = 0, lon = 90, height = 0,
            temperature = 30, moisture = 9 / 10, biome = ''OCEAN'', isRiver = False\<rparr>]"
  by (simp add: world_defs example_defs)

lemma example_map_world_half:
  "generateWorld exampleMapGenerator exampleGrid (constantDraws (1 / 2)) 0 (1 / 10) 1 23.5 1 1 365 Noise =
     Inr [\<lparr>h3Index = ''a'', lat = 0, lon = - 180, height = 1,
            temperature = - 42, moisture = 1, biome = ''ICE'', isRiver = False\<rparr>,
          \<lparr>h3Index = ''b'', lat = 0, lon = - 90, height = 4 / 5,
            temperature = - 26, moisture = 13 / 10, biome = ''RIVER'', isRiver = True\<rparr>,
          \<lparr>h3Index = ''c'', lat = 0, lon = 0, height = 1 / 5,
            temperature = 22, moisture = 5 / 4, biome = ''RIVER'', isRiver = True\<rparr>,
          \<lparr>h3Index = ''d'', lat = 0, lon = 90, height = 0,
            temperature = 30, moisture = 9 / 10, biome = ''OCEAN'', isRiver = False\<rparr>]"
  by (simp add: world_defs example_defs)

lemma example_rivers_half:
  "simulateRivers exampleGrid (constantDraws (1 / 2)) 0 exampleCells (1 / 10) = Inr {''b'', ''c''}"
  by (simp add: world_defs example_defs insert_commute)

lemma example_sea_one_tectonic:
  "generateWorld exampleGenerator exampleGrid (constantDraws 0) 0 1 1 23.5 1 1 365 Tectonic =
     Inr [\<lparr>h3Index = ''a'', lat = 0, lon = - 180, height = 0,
            temperature = 30, moisture = 9 / 10, biome = ''OCEAN'', isRiver = False\<rparr>,
          \<lparr>h3Index = ''b'', lat = 0, lon = - 90, height = 0,
            temperature = 30, moisture = 9 / 10, biome = ''OCEAN'', isRiver = False\<rparr>,
          \<lparr>h3Index = ''c'', lat = 0, lon = 0, height = 1 / 5,
            temperature = 30, moisture = 9 / 10, biome = ''OCEAN'', isRiver = False\<rparr>,
          \<lparr>h3Index = ''d'', lat = 0, lon = 90, height = 0,
            temperature = 30, moisture = 9 / 10, biome = ''OCEAN'', isRiver = False\<rparr>]"
  by (simp add: world_defs example_defs generateTectonicPlates_def latLngOf_def nearestPlate_def upt_rec)

lemma example_sea_one_noise:
  "generateWorld exampleGenerator exampleGrid (constantDraws 0) 0 1 1 23.5 1 1 365 Noise =
     Inr [\<lparr>h3Index = ''a'', lat = 0, lon = - 180, height = 0,
            temperature = 30, moisture = 9 / 10, biome = ''OCEAN'', isRiver = False\<rparr>,
          \<lparr>h3Index = ''b'', lat = 0, lon = - 90, height = 0,
            temperature = 30, moisture = 9 / 10, biome = ''OCEAN'', isRiver = False\<rparr>,
          \<lparr>h3Index = ''c'', lat = 0, lon = 0, height = 1,
            temperature = 30, moisture = 9 / 10, biome = ''OCEAN'', isRiver = False\<rparr>,
          \<lparr>h3Index = ''d'', lat = 0, lon = 90, height = 0,
            temperature = 30, moisture = 9 / 10, biome = ''OCEAN'', isRiver = False\<rparr>]"
  by (simp add: world_defs example_defs)

section \<open>The biome classifier\<close>

text \<open>
  Claim C3. The classifier is a function of temperature, moisture, elevation
  and sea level alone, and it is the decision table read in priority order:
  ocean at or below sea level; otherwise ice below -5 degrees, tundra below 5;
  above 20 degrees rainforest, savanna or desert by moisture above 0.8, above
  0.4 or neither; above 10 degrees temperate forest, grassland or desert by
  moisture above 0.6, above 0.3 or neither; otherwise taiga when moisture is
  above 0.5 and tundra when it is not.
\<close>

theorem determineBiome_table:
  "firstRule (biomeRules t m e seaLevel) = Some (determineBiome t m e seaLevel)"
  by (simp add: biomeRules_def determineBiome_def)

section \<open>Rivers in the generated world\<close>

text \<open>
  Claim C4. In the array \<open>generateWorld\<close> returns, a cell has the biome RIVER
  exactly when its identifier is in the set \<open>simulateRivers\<close> returned for
  the cells of the first pass and its height is above sea level. A cell that
  is not RIVER carries the biome of the decision table for its temperature,
  moisture and height, so no cell outside the river set is RIVER.
\<close>

theorem river_biome_iff:
  assumes "generateWorld gen g rnd res sl su ax rs rp op m = Inr ws"
  shows "\<exists>k rivers.
           simulateRivers g rnd k (map CellInfo.truncate ws) sl = Inr rivers \<and>
           (\<forall>c\<in>set ws.
              isRiver c = (h3Index c \<in> rivers) \<and>
              (biome c = ''RIVER'') = (h3Index c \<in> rivers \<and> height c > sl) \<and>
              (biome c \<noteq> ''RIVER'' \<longrightarrow>
                 biome c = determineBiome (temperature c) (moisture c) (height c) sl))"
proof -
  from assms obtain th k rivers where
    sim: "simulateRivers g rnd k (map (cellInfo gen g m th) (expandCells g res)) sl = Inr rivers" and
    ws: "ws = map (cellData rivers sl su ax rs rp op) (map (cellInfo gen g m th) (expandCells g res))"
    by (rule generateWorld_Inr)
  have "map CellInfo.truncate ws = map (cellInfo gen g m th) (expandCells g res)"
    by (simp add: ws truncate_cellData comp_def)
  with sim have "simulateRivers g rnd k (map CellInfo.truncate ws) sl = Inr rivers" by simp
  moreover have "isRiver c = (h3Index c \<in> rivers) \<and>
              (biome c = ''RIVER'') = (h3Index c \<in> rivers \<and> height c > sl) \<and>
              (biome c \<noteq> ''RIVER'' \<longrightarrow>
                 biome c = determineBiome (temperature c) (moisture c) (height c) sl)"
    if "c \<in> set ws" for c
  proof -
    from that ws obtain info where c: "c = cellData rivers sl su ax rs rp op info" by auto
    show ?thesis
      unfolding c by (simp add: cellData_fields cellData_biome determineBiome_not_river)
  qed
  ultimately show ?thesis by blast
qed

text \<open>
  On the small world with the height map and draws of 0.5 the river set holds
  \<open>c\<close> and not \<open>a\<close>.
\<close>

theorem river_biome_iff_witness:
  "\<exists>k rivers.
     simulateRivers exampleGrid (constantDraws (1 / 2)) k exampleCells (1 / 10) = Inr rivers \<and>
     ''c'' \<in> rivers \<and> ''a'' \<notin> rivers"
proof -
  from river_biome_iff [OF example_map_world_half] obtain k rivers where
    "simulateRivers exampleGrid (constantDraws (1 / 2)) k exampleCells (1 / 10) = Inr rivers"
    "''c'' \<in> rivers \<and> ''a'' \<notin> rivers"
    by (auto simp: CellInfo.truncate_def exampleCells_def)
  then show ?thesis by blast
qed

section \<open>The length of the result\<close>

text \<open>
  Claim C5. Whatever array \<open>generateWorld\<close> returns lists, in order, the
  grid's base cells expanded to the resolution: at resolution 0 the base
  cells themselves, at any other resolution the children of each base cell
  at that resolution, one base cell after the other. Its length is the number
  of those cells, the sum of the numbers of children. Neither the list nor
  its length mentions the generator (seed, height map) or the method. An
  array is returned whenever \<open>Math.random\<close> keeps its contract and, for the
  tectonic method, the grid has a cell at that resolution (or the library
  accepts \<open>undefined\<close>).
\<close>

theorem generateWorld_length:
  "(generateWorld gen g rnd res sl su ax rs rp op m = Inr ws \<longrightarrow>
      length ws = length (expandCells g res) \<and>
      (res = 0 \<longrightarrow>
         map h3Index ws = getRes0Cells g \<and> length ws = length (getRes0Cells g)) \<and>
      (res \<noteq> 0 \<longrightarrow>
         map h3Index ws = concat (map (\<lambda>c. cellToChildren g c res) (getRes0Cells g)) \<and>
         length ws = length (concat (map (\<lambda>c. cellToChildren g c res) (getRes0Cells g))) \<and>
         length ws = sum_list (map (\<lambda>c. length (cellToChildren g c res)) (getRes0Cells g)))) \<and>
   expandCells g 0 = getRes0Cells g \<and>
   (res \<noteq> 0 \<longrightarrow>
      expandCells g res = concat (map (\<lambda>c. cellToChildren g c res) (getRes0Cells g))) \<and>
   (randomContract rnd \<and>
    (m = Tectonic \<longrightarrow> expandCells g res \<noteq> [] \<or> cellToLatLngUndefined g \<noteq> None) \<longrightarrow>
      (\<exists>cells. generateWorld gen g rnd res sl su ax rs rp op m = Inr cells \<and>
         length cells = length (expandCells g res)))"
proof -
  have ids: "map h3Index xs = expandCells g res"
    if "generateWorld gen g rnd res sl su ax rs rp op m = Inr xs" for xs
    using that by (rule generateWorld_Inr) (simp add: comp_def cellData_fields cellInfo_fields)
  have len: "length xs = length (expandCells g res)"
    if "generateWorld gen g rnd res sl su ax rs rp op m = Inr xs" for xs
    using ids [OF that] by (metis length_map)
  have zero: "expandCells g 0 = getRes0Cells g" by (simp add: expandCells_def)
  have other: "expandCells g res = concat (map (\<lambda>c. cellToChildren g c res) (getRes0Cells g))"
    if "res \<noteq> 0"
    using that by (simp add: expandCells_def)
  have count: "length (concat (map (\<lambda>c. cellToChildren g c res) (getRes0Cells g))) =
      sum_list (map (\<lambda>c. length (cellToChildren g c res)) (getRes0Cells g))"
    by (simp add: length_concat comp_def)
  have total: "\<exists>cells. generateWorld gen g rnd res sl su ax rs rp op m = Inr cells \<and>
         length cells = length (expandCells g res)"
    if "randomContract rnd"
      "m = Tectonic \<longrightarrow> expandCells g res \<noteq> [] \<or> cellToLatLngUndefined g \<noteq> None"
    using generateWorld_total [OF that, of gen sl su ax rs rp op] len by blast
  have returned: "length ws = length (expandCells g res) \<and>
      (res = 0 \<longrightarrow>
         map h3Index ws = getRes0Cells g \<and> length ws = length (getRes0Cells g)) \<and>
      (res \<noteq> 0 \<longrightarrow>
         map h3Index ws = concat (map (\<lambda>c. cellToChildren g c res) (getRes0Cells g)) \<and>
         length ws = length (concat (map (\<lambda>c. cellToChildren g c res) (getRes0Cells g))) \<and>
         length ws = sum_list (map (\<lambda>c. length (cellToChildren g c res)) (getRes0Cells g)))"
    if w: "generateWorld gen g rnd res sl su ax rs rp op m = Inr ws"
  proof (cases "res = 0")
    case True
    with ids [OF w] len [OF w] zero show ?thesis by simp
  next
    case False
    from ids [OF w] other [OF False]
    have 1: "map h3Index ws = concat (map (\<lambda>c. cellToChildren g c res) (getRes0Cells g))"
      by simp
    from len [OF w] other [OF False]
    have 2: "length ws = length (concat (map (\<lambda>c. cellToChildren g c res) (getRes0Cells g)))"
      by simp
    from 2 count
    have 3: "length ws = sum_list (map (\<lambda>c. length (cellToChildren g c res)) (getRes0Cells g))"
      by simp
    from False 1 2 3 len [OF w] show ?thesis by blast
  qed
  from returned zero other total show ?thesis by blast
qed

text \<open>
  The small world at resolution 1 with the tectonic method: the 8 children,
  two for each base cell, in the order of the base cells. With a height map
  at resolution 0: the 4 base cells.
\<close>

theorem generateWorld_length_witness:
  "(\<exists>cells. generateWorld exampleGenerator exampleGrid (constantDraws 0) 1 (1 / 2) 1 23.5 1 1 365
       Tectonic = Inr cells \<and> length cells = 8 \<and>
       map h3Index cells = [''a0'', ''a1'', ''b0'', ''b1'', ''c0'', ''c1'', ''d0'', ''d1'']) \<and>
   (\<exists>cells. generateWorld exampleMapGenerator exampleGrid (constantDraws (1 / 2)) 0 (1 / 10) 1
       23.5 1 1 365 Noise = Inr cells \<and> length cells = 4 \<and>
       map h3Index cells = [''a'', ''b'', ''c'', ''d''])"
proof -
  have a: "length (expandCells exampleGrid 1) = 8" "length (expandCells exampleGrid 0) = 4"
    by (simp_all add: expandCells_def exampleGrid_def)
  then have b: "expandCells exampleGrid 1 \<noteq> []" by auto
  have r: "randomContract (constantDraws 0)" "randomContract (constantDraws (1 / 2))"
    by (simp_all add: randomContract_def constantDraws_def)
  from generateWorld_length [of exampleGenerator exampleGrid "constantDraws 0" 1 "1 / 2" 1 "23.5"
          1 1 365 Tectonic] r(1) a(1) b
  obtain xs where xs: "generateWorld exampleGenerator exampleGrid (constantDraws 0) 1 (1 / 2) 1 23.5
          1 1 365 Tectonic = Inr xs" "length xs = 8"
    by auto
  from generateWorld_length [of exampleGenerator exampleGrid "constantDraws 0" 1 "1 / 2" 1 "23.5"
          1 1 365 Tectonic xs] xs(1)
  have "map h3Index xs = concat (map (\<lambda>c. cellToChildren exampleGrid c 1) (getRes0Cells exampleGrid))"
    by simp
  then have 1: "map h3Index xs = [''a0'', ''a1'', ''b0'', ''b1'', ''c0'', ''c1'', ''d0'', ''d1'']"
    by (simp add: exampleGrid_def)
  from generateWorld_length [of exampleMapGenerator exampleGrid "constantDraws (1 / 2)" 0
          "1 / 10" 1 "23.5" 1 1 365 Noise] r(2) a(2)
  obtain ys where ys: "generateWorld exampleMapGenerator exampleGrid (constantDraws (1 / 2)) 0
          (1 / 10) 1 23.5 1 1 365 Noise = Inr ys" "length ys = 4"
    by auto
  from generateWorld_length [of exampleMapGenerator exampleGrid "constantDraws (1 / 2)" 0
          "1 / 10" 1 "23.5" 1 1 365 Noise ys] ys(1)
  have 2: "map h3Index ys = [''a'', ''b'', ''c'', ''d'']"
    by (simp add: exampleGrid_def)
  have first: "\<exists>cells. generateWorld exampleGenerator exampleGrid (constantDraws 0) 1 (1 / 2) 1 23.5
       1 1 365 Tectonic = Inr cells \<and> length cells = 8 \<and>
       map h3Index cells = [''a0'', ''a1'', ''b0'', ''b1'', ''c0'', ''c1'', ''d0'', ''d1'']"
  proof (intro exI conjI)
    show "generateWorld exampleGenerator exampleGrid (constantDraws 0) 1 (1 / 2) 1 23.5
       1 1 365 Tectonic = Inr xs" by (rule xs(1))
    show "length xs = 8" by (rule xs(2))
    show "map h3Index xs = [''a0'', ''a1'', ''b0'', ''b1'', ''c0'', ''c1'', ''d0'', ''d1'']"
      by (rule 1)
  qed
  have second: "\<exists>cells. generateWorld exampleMapGenerator exampleGrid (constantDraws (1 / 2)) 0
       (1 / 10) 1 23.5 1 1 365 Noise = Inr cells \<and> length cells = 4 \<and>
       map h3Index cells = [''a'', ''b'', ''c'', ''d'']"
  proof (intro exI conjI)
    show "generateWorld exampleMapGenerator exampleGrid (constantDraws (1 / 2)) 0
       (1 / 10) 1 23.5 1 1 365 Noise = Inr ys" by (rule ys(1))
    show "length ys = 4" by (rule ys(2))
    show "map h3Index ys = [''a'', ''b'', ''c'', ''d'']" by (rule 2)
  qed
  from first second show ?thesis by (rule conjI)
qed

section \<open>The candidate sources of rivers\<close>



section \<open>River cells lie above sea level\<close>

text \<open>
  Claim C10. Every identifier in the set \<open>simulateRivers\<close> returns is the
  identifier of a cell whose height is strictly greater than the sea level;
  when the identifiers of the cells are distinct, every cell with that
  identifier is. The loop tests the height before it marks, so a cell at or
  below sea level that a walk ends in is not in the set.
\<close>

theorem rivers_above_seaLevel:
  assumes "simulateRivers g rnd k cells sl = Inr rivers" "i \<in> rivers"
  shows "(\<exists>c\<in>set cells. h3Index c = i \<and> height c > sl) \<and>
         (distinct (map h3Index cells) \<longrightarrow> (\<forall>c\<in>set cells. h3Index c = i \<longrightarrow> height c > sl))"
proof -
  from simulateRivers_above [OF assms] obtain c where
    c: "c \<in> set cells" "h3Index c = i" "height c > sl" by blast
  have "height c' > sl" if "distinct (map h3Index cells)" "c' \<in> set cells" "h3Index c' = i" for c'
  proof -
    from that(1) have "inj_on h3Index (set cells)" by (simp add: distinct_map)
    with c that(2,3) have "c' = c" by (auto dest: inj_onD)
    with c show ?thesis by simp
  qed
  with c show ?thesis by blast
qed

text \<open>
  With draws of 0.5 every trial on the small world starts at \<open>b\<close>, goes down
  to \<open>c\<close> and on to \<open>d\<close>, which lies below the sea level 0.1: the set is
  \<open>b\<close> and \<open>c\<close>.
\<close>

theorem rivers_above_seaLevel_witness:
  "simulateRivers exampleGrid (constantDraws (1 / 2)) 0 exampleCells (1 / 10) = Inr {''b'', ''c''} \<and>
   (\<exists>c\<in>set exampleCells. h3Index c = ''c'' \<and> height c > 1 / 10) \<and>
   height (exampleCells ! 2) > 1 / 10"
  using rivers_above_seaLevel [OF example_rivers_half, of "''c''"] example_rivers_half
  by (simp add: exampleCells_def)

section \<open>The walk of a river trial\<close>

text \<open>
  Claim C7. The walk of a trial is a total function: it stops at once when the
  current height is not above sea level or 100 steps have been made; it marks
  the current cell and stops when no neighbour other than the cell itself has
  a strictly lower height; otherwise (identifiers being non-empty strings) it
  marks the current cell and goes on from a neighbour other than itself whose
  height is strictly lower and lowest among the neighbours. A walk marks at
  most 100 cells. Marking is a union with the cells already marked, so a cell
  met again changes nothing, and the set \<open>simulateRivers\<close> returns is the
  union of the cells the 50 trials mark (empty when there is no candidate).
  With \<open>Math.random\<close> in its contract \<open>simulateRivers\<close> returns a set.
\<close>

theorem riverWalk_steps:
  "(\<not> (height cur > sl \<and> pl < 100) \<longrightarrow> riverWalk g hm sl cur pl R = R) \<and>
   (height cur > sl \<and> pl < 100 \<and>
    (\<forall>n\<in>set (gridDisk g (h3Index cur) 1). n \<noteq> h3Index cur \<longrightarrow>
       (\<forall>h. hm n = Some h \<longrightarrow> height cur \<le> h)) \<longrightarrow>
      riverWalk g hm sl cur pl R = insert (h3Index cur) R) \<and>
   (height cur > sl \<and> pl < 100 \<and> [] \<notin> set (gridDisk g (h3Index cur) 1) \<and>
    (\<exists>n\<in>set (gridDisk g (h3Index cur) 1). n \<noteq> h3Index cur \<and> (\<exists>h. hm n = Some h \<and> h < height cur)) \<longrightarrow>
      (\<exists>b l. b \<in> set (gridDisk g (h3Index cur) 1) \<and> b \<noteq> h3Index cur \<and> hm b = Some l \<and>
         l < height cur \<and>
         (\<forall>n\<in>set (gridDisk g (h3Index cur) 1). n \<noteq> h3Index cur \<longrightarrow>
            (\<forall>h. hm n = Some h \<longrightarrow> l \<le> h)) \<and>
         riverWalk g hm sl cur pl R =
           riverWalk g hm sl \<lparr>h3Index = b, lat = 0, lon = 0, height = l\<rparr> (pl + 1)
             (insert (h3Index cur) R))) \<and>
   riverWalk g hm sl cur pl R = R \<union> riverWalk g hm sl cur pl {} \<and>
   finite (riverWalk g hm sl cur pl {}) \<and> card (riverWalk g hm sl cur pl {}) \<le> 100 - pl \<and>
   (simulateRivers g rnd k cells sl = Inr S \<longrightarrow>
      S = (if candidates cells sl = [] then {}
           else (\<Union>i\<in>{0..<50}. trialCells g rnd k (buildHeightMap cells) (candidates cells sl) sl i))) \<and>
   (randomContract rnd \<longrightarrow> (\<exists>S'. simulateRivers g rnd k cells sl = Inr S'))"
proof (intro conjI impI)
  assume "\<not> (height cur > sl \<and> pl < 100)"
  then show "riverWalk g hm sl cur pl R = R" by (rule riverWalk_stop)
next
  assume "height cur > sl \<and> pl < 100 \<and>
    (\<forall>n\<in>set (gridDisk g (h3Index cur) 1). n \<noteq> h3Index cur \<longrightarrow>
       (\<forall>h. hm n = Some h \<longrightarrow> height cur \<le> h))"
  then show "riverWalk g hm sl cur pl R = insert (h3Index cur) R"
    by (intro riverWalk_local_minimum) simp_all
next
  assume a: "height cur > sl \<and> pl < 100 \<and> [] \<notin> set (gridDisk g (h3Index cur) 1) \<and>
    (\<exists>n\<in>set (gridDisk g (h3Index cur) 1). n \<noteq> h3Index cur \<and> (\<exists>h. hm n = Some h \<and> h < height cur))"
  then obtain n h where "n \<in> set (gridDisk g (h3Index cur) 1)" "n \<noteq> h3Index cur"
    "hm n = Some h" "h < height cur" by blast
  with a show "\<exists>b l. b \<in> set (gridDisk g (h3Index cur) 1) \<and> b \<noteq> h3Index cur \<and> hm b = Some l \<and>
         l < height cur \<and>
         (\<forall>n\<in>set (gridDisk g (h3Index cur) 1). n \<noteq> h3Index cur \<longrightarrow>
            (\<forall>h. hm n = Some h \<longrightarrow> l \<le> h)) \<and>
         riverWalk g hm sl cur pl R =
           riverWalk g hm sl \<lparr>h3Index = b, lat = 0, lon = 0, height = l\<rparr> (pl + 1)
             (insert (h3Index cur) R)"
    by (intro riverWalk_move) simp_all
next
  show "riverWalk g hm sl cur pl R = R \<union> riverWalk g hm sl cur pl {}"
    by (rule riverWalk_union)
next
  show "finite (riverWalk g hm sl cur pl {})" using riverWalk_card by blast
next
  show "card (riverWalk g hm sl cur pl {}) \<le> 100 - pl" using riverWalk_card by blast
next
  assume "simulateRivers g rnd k cells sl = Inr S"
  from simulateRivers_union [OF this]
  show "S = (if candidates cells sl = [] then {}
           else (\<Union>i\<in>{0..<50}. trialCells g rnd k (buildHeightMap cells) (candidates cells sl) sl i))"
    by (simp add: numRivers_def)
next
  assume "randomContract rnd"
  then show "\<exists>S'. simulateRivers g rnd k cells sl = Inr S'" by (rule simulateRivers_total)
qed

text \<open>
  On the small world: \<open>d\<close> lies below the sea level 0.1 and is not marked;
  with the sea level at -1 it is a local minimum, marked alone; from \<open>b\<close> the
  walk moves on to a lower neighbour; the 50 trials with draws of 0.5 mark
  \<open>b\<close> and \<open>c\<close>.
\<close>

theorem riverWalk_steps_witness:
  "riverWalk exampleGrid (buildHeightMap exampleCells) (1 / 10) (exampleCells ! 3) 0 {} = {} \<and>
   riverWalk exampleGrid (buildHeightMap exampleCells) (- 1) (exampleCells ! 3) 0 {} = {''d''} \<and>
   (\<exists>b l. b \<in> set (gridDisk exampleGrid ''b'' 1) \<and> b \<noteq> ''b'' \<and>
      buildHeightMap exampleCells b = Some l \<and> l < 4 / 5 \<and>
      riverWalk exampleGrid (buildHeightMap exampleCells) (1 / 10) (exampleCells ! 1) 0 {} =
        riverWalk exampleGrid (buildHeightMap exampleCells) (1 / 10)
          \<lparr>h3Index = b, lat = 0, lon = 0, height = l\<rparr> 1 {''b''}) \<and>
   {''b'', ''c''} =
     (\<Union>i\<in>{0..<50}. trialCells exampleGrid (constantDraws (1 / 2)) 0 (buildHeightMap exampleCells)
        (candidates exampleCells (1 / 10)) (1 / 10) i) \<and>
   (\<exists>S'. simulateRivers exampleGrid (constantDraws (1 / 2)) 0 exampleCells (1 / 10) = Inr S')"
proof -
  note ex = exampleCells_def exampleGrid_def exampleDisk_def buildHeightMap_def
  have 1: "riverWalk exampleGrid (buildHeightMap exampleCells) (1 / 10) (exampleCells ! 3) 0 {} = {}"
    using riverWalk_steps [where cur = "exampleCells ! 3" and sl = "1 / 10" and pl = 0
        and g = exampleGrid and hm = "buildHeightMap exampleCells" and R = "{}", THEN conjunct1]
    by (simp add: exampleCells_def)
  have 2: "riverWalk exampleGrid (buildHeightMap exampleCells) (- 1) (exampleCells ! 3) 0 {} = {''d''}"
    using riverWalk_steps [where cur = "exampleCells ! 3" and sl = "- 1" and pl = 0
        and g = exampleGrid and hm = "buildHeightMap exampleCells" and R = "{}",
        THEN conjunct2, THEN conjunct1]
    by (simp add: ex)
  have 3: "\<exists>b l. b \<in> set (gridDisk exampleGrid ''b'' 1) \<and> b \<noteq> ''b'' \<and>
      buildHeightMap exampleCells b = Some l \<and> l < 4 / 5 \<and>
      riverWalk exampleGrid (buildHeightMap exampleCells) (1 / 10) (exampleCells ! 1) 0 {} =
        riverWalk exampleGrid (buildHeightMap exampleCells) (1 / 10)
          \<lparr>h3Index = b, lat = 0, lon = 0, height = l\<rparr> 1 {''b''}"
  proof -
    have h: "height (exampleCells ! 1) > 1 / 10 \<and> (0::nat) < 100 \<and>
      [] \<notin> set (gridDisk exampleGrid (h3Index (exampleCells ! 1)) 1) \<and>
      (\<exists>n\<in>set (gridDisk exampleGrid (h3Index (exampleCells ! 1)) 1).
         n \<noteq> h3Index (exampleCells ! 1) \<and>
         (\<exists>h. buildHeightMap exampleCells n = Some h \<and> h < height (exampleCells ! 1)))"
      by (simp add: ex) (rule exI [of _ "1 / 5"], simp)
    from riverWalk_steps [where cur = "exampleCells ! 1" and sl = "1 / 10" and pl = 0
        and g = exampleGrid and hm = "buildHeightMap exampleCells" and R = "{}",
        THEN conjunct2, THEN conjunct2, THEN conjunct1, rule_format, OF h]
    obtain b l where "b \<in> set (gridDisk exampleGrid (h3Index (exampleCells ! 1)) 1)"
      "b \<noteq> h3Index (exampleCells ! 1)" "buildHeightMap exampleCells b = Some l"
      "l < height (exampleCells ! 1)"
      "riverWalk exampleGrid (buildHeightMap exampleCells) (1 / 10) (exampleCells ! 1) 0 {} =
        riverWalk exampleGrid (buildHeightMap exampleCells) (1 / 10)
          \<lparr>h3Index = b, lat = 0, lon = 0, height = l\<rparr> (0 + 1) (insert (h3Index (exampleCells ! 1)) {})"
      by blast
    then show ?thesis
      by (intro exI [of _ b] exI [of _ l]) (simp add: exampleCells_def)
  qed
  have 4: "{''b'', ''c''} =
     (\<Union>i\<in>{0..<50}. trialCells exampleGrid (constantDraws (1 / 2)) 0 (buildHeightMap exampleCells)
        (candidates exampleCells (1 / 10)) (1 / 10) i)"
  proof -
    have ne: "candidates exampleCells (1 / 10) \<noteq> []"
      by (simp add: candidates_def exampleCells_def)
    from riverWalk_steps [where g = exampleGrid and rnd = "constantDraws (1 / 2)" and k = 0
        and cells = exampleCells and sl = "1 / 10" and S = "{''b'', ''c''}",
        THEN conjunct2, THEN conjunct2, THEN conjunct2, THEN conjunct2, THEN conjunct2,
        THEN conjunct2, THEN conjunct1, rule_format, OF example_rivers_half] ne
    show ?thesis by simp
  qed
  have 5: "\<exists>S'. simulateRivers exampleGrid (constantDraws (1 / 2)) 0 exampleCells (1 / 10) = Inr S'"
  proof -
    have r: "randomContract (constantDraws (1 / 2))"
      by (simp add: randomContract_def constantDraws_def)
    from riverWalk_steps [where g = exampleGrid and rnd = "constantDraws (1 / 2)" and k = 0
        and cells = exampleCells and sl = "1 / 10",
        THEN conjunct2, THEN conjunct2, THEN conjunct2, THEN conjunct2, THEN conjunct2,
        THEN conjunct2, THEN conjunct2, rule_format, OF r]
    show ?thesis .
  qed
  from 1 2 3 4 5 show ?thesis by blast
qed

section \<open>Insolation\<close>

text \<open>
  Claim C8. \<open>calculateInsolation\<close> takes the tidally locked branch exactly
  when the rotation and orbital periods differ by less than 0.1; there it is
  the greater of 0 and \<open>cos lat * cos lon\<close>, times the sunlight, and otherwise
  \<open>cos lat\<close> times the sunlight. The tilt changes nothing in either branch.
  When locked, the value at latitude 0 and longitude 0 is the sunlight, and
  it is 0 at latitude 90 or -90 and, for a latitude between -90 and 90, at
  longitude 180 or -180. The cosines are those of the real numbers.
\<close>

theorem calculateInsolation_regimes:
  "calculateInsolation la lo tilt s rp op =
     (if \<bar>rp - op\<bar> < 0.1 then max 0 (cos (la * pi / 180) * cos (lo * pi / 180)) * s
      else cos (la * pi / 180) * s) \<and>
   calculateInsolation la lo tilt s rp op = calculateInsolation la lo tilt' s rp op \<and>
   (\<bar>rp - op\<bar> < 0.1 \<longrightarrow>
      calculateInsolation 0 0 tilt s rp op = s \<and>
      calculateInsolation 90 lo tilt s rp op = 0 \<and>
      calculateInsolation (- 90) lo tilt s rp op = 0 \<and>
      (- 90 \<le> la \<and> la \<le> 90 \<longrightarrow>
         calculateInsolation la 180 tilt s rp op = 0 \<and>
         calculateInsolation la (- 180) tilt s rp op = 0))"
proof -
  have form: "calculateInsolation x y t s rp op =
     (if \<bar>rp - op\<bar> < 0.1 then max 0 (cos (x * pi / 180) * cos (y * pi / 180)) * s
      else cos (x * pi / 180) * s)" for x y t
    by (simp add: calculateInsolation_def Let_def max_def)
  have tilt: "calculateInsolation la lo tilt s rp op = calculateInsolation la lo tilt' s rp op"
    by (simp add: form)
  have night: "max 0 (cos (la * pi / 180) * cos (y * pi / 180)) = 0"
    if "- 90 \<le> la" "la \<le> 90" "cos (y * pi / 180) = - 1" for y
  proof -
    have "0 \<le> (la + 90) * pi" "0 \<le> (90 - la) * pi"
      using that(1,2) by (simp_all only: zero_le_mult_iff pi_ge_zero) simp_all
    then have "- (90 * pi) \<le> la * pi" "la * pi \<le> 90 * pi"
      by (simp_all add: algebra_simps)
    then have "- (pi / 2) \<le> la * pi / 180" "la * pi / 180 \<le> pi / 2"
      by linarith+
    then have "0 \<le> cos (la * pi / 180)" by (rule cos_ge_zero)
    with that(3) show ?thesis by (simp add: max_def)
  qed
  have "cos (180 * pi / 180) = - 1" "cos (- 180 * pi / 180) = - 1" by simp_all
  with night have far: "- 90 \<le> la \<and> la \<le> 90 \<longrightarrow>
      max 0 (cos (la * pi / 180) * cos (180 * pi / 180)) = 0 \<and>
      max 0 (cos (la * pi / 180) * cos (- 180 * pi / 180)) = 0"
    by blast
  have pole: "cos (90 * pi / 180) = 0" "cos (- 90 * pi / 180) = 0" by simp_all
  show ?thesis
    using tilt far pole by (simp add: form)
qed

text \<open>
  Periods 1 and 1 are locked, periods 1 and 365 are not: there the far side
  receives what the near side does.
\<close>

theorem calculateInsolation_regimes_witness:
  "calculateInsolation 0 0 23.5 2 1 1 = 2 \<and>
   calculateInsolation 90 30 23.5 2 1 1 = 0 \<and>
   calculateInsolation (- 90) 30 23.5 2 1 1 = 0 \<and>
   calculateInsolation 45 180 23.5 2 1 1 = 0 \<and>
   calculateInsolation 45 (- 180) 23.5 2 1 1 = 0 \<and>
   calculateInsolation 0 0 23.5 2 1 365 = 2 \<and>
   calculateInsolation 0 180 23.5 2 1 365 = 2"
  using calculateInsolation_regimes [of 45 30 "23.5" 2 1 1 0]
        calculateInsolation_regimes [of 0 0 "23.5" 2 1 365 0]
        calculateInsolation_regimes [of 0 180 "23.5" 2 1 365 0]
  by simp

section \<open>A world under water\<close>

text \<open>
  Claim C9. With the sea level at 1 every cell of the array \<open>generateWorld\<close>
  returns is OCEAN, whatever the generator, the grid, the draws, the
  resolution and the method: no height exceeds 1, given that the noise
  function keeps its contract where the height is taken from it.
\<close>

theorem seaLevel_one_all_ocean:
  assumes "heightMapContext gen = None \<and> m = Noise \<longrightarrow> noiseContract (noise3D gen)"
    and "generateWorld gen g rnd res 1 su ax rs rp op m = Inr ws"
    and "c \<in> set ws"
  shows "biome c = ''OCEAN'' \<and> height c \<le> 1"
proof -
  from generateWorld_height_range [OF assms] have h: "height c \<le> 1" by simp
  from assms(2) obtain th k rivers where
    ws: "ws = map (cellData rivers 1 su ax rs rp op) (map (cellInfo gen g m th) (expandCells g res))"
    by (rule generateWorld_Inr)
  with assms(3) obtain info where c: "c = cellData rivers 1 su ax rs rp op info"
    by auto
  from h show ?thesis
    unfolding c by (simp add: cellData_fields cellData_biome determineBiome_ocean)
qed

text \<open>
  The small world at sea level 1: with the noise method the peak \<open>c\<close>, of
  height 1, is ocean; with the tectonic method so is \<open>c\<close> at height 0.2.
\<close>

theorem seaLevel_one_all_ocean_witness:
  "noiseContract (noise3D exampleGenerator) \<and>
   biome \<lparr>h3Index = ''c'', lat = 0, lon = 0, height = 1,
           temperature = 30, moisture = 9 / 10, biome = ''OCEAN'', isRiver = False\<rparr> = ''OCEAN'' \<and>
   biome \<lparr>h3Index = ''c'', lat = 0, lon = 0, height = 1 / 5,
           temperature = 30, moisture = 9 / 10, biome = ''OCEAN'', isRiver = False\<rparr> = ''OCEAN''"
proof -
  have n: "noiseContract (noise3D exampleGenerator)"
    by (simp add: noiseContract_def exampleGenerator_def newWorldGenerator_def exampleNoise_def)
  then have 1: "heightMapContext exampleGenerator = None \<and> Noise = Noise \<longrightarrow>
      noiseContract (noise3D exampleGenerator)"
    and 2: "heightMapContext exampleGenerator = None \<and> Tectonic = Noise \<longrightarrow>
      noiseContract (noise3D exampleGenerator)"
    by simp_all
  from seaLevel_one_all_ocean [OF 1 example_sea_one_noise,
      of "\<lparr>h3Index = ''c'', lat = 0, lon = 0, height = 1,
           temperature = 30, moisture = 9 / 10, biome = ''OCEAN'', isRiver = False\<rparr>"]
    seaLevel_one_all_ocean [OF 2 example_sea_one_tectonic,
      of "\<lparr>h3Index = ''c'', lat = 0, lon = 0, height = 1 / 5,
           temperature = 30, moisture = 9 / 10, biome = ''OCEAN'', isRiver = False\<rparr>"] n
  show ?thesis by simp
qed

section \<open>The moisture of river cells\<close>

text \<open>
  Claim C1. The claim is that every returned cell has height and moisture
  between 0 and 1, the river bonus of 0.3 being added before the clamp. In
  \<open>generateWorld\<close> the clamp is inside \<open>calculateMoisture\<close> and the bonus is
  added to its result: on the small world the river cell \<open>c\<close>, of height 1 on
  the equator, is returned with moisture 1.3. (Heights do lie between 0 and
  1, and moisture between 0 and 1.3: \<open>generateWorld_ranges\<close>.)
\<close>

theorem river_moisture_above_one:
  "\<exists>ws. generateWorld exampleGenerator exampleGrid (constantDraws 0) 0 (1 / 2) 1 23.5 1 1 365 Noise
           = Inr ws \<and>
         (\<exists>c\<in>set ws. h3Index c = ''c'' \<and> isRiver c \<and> height c = 1 \<and> moisture c = 13 / 10)"
proof (intro exI conjI)
  show "generateWorld exampleGenerator exampleGrid (constantDraws 0) 0 (1 / 2) 1 23.5 1 1 365 Noise
    = Inr [\<lparr>h3Index = ''a'', lat = 0, lon = - 180, height = 0,
            temperature = 30, moisture = 9 / 10, biome = ''OCEAN'', isRiver = False\<rparr>,
          \<lparr>h3Index = ''b'', lat = 0, lon = - 90, height = 0,
            temperature = 30, moisture = 9 / 10, biome = ''OCEAN'', isRiver = False\<rparr>,
          \<lparr>h3Index = ''c'', lat = 0, lon = 0, height = 1,
            temperature = - 10, moisture = 13 / 10, biome = ''RIVER'', isRiver = True\<rparr>,
          \<lparr>h3Index = ''d'', lat = 0, lon = 90, height = 0,
            temperature = 30, moisture = 9 / 10, biome = ''OCEAN'', isRiver = False\<rparr>]"
    by (rule example_noise_world)
qed simp

section \<open>Determinism\<close>

text \<open>
  Claim C2, as stated: two calls with the same seed and parameters return the
  same records in the same order. The rivers are drawn with \<open>Math.random\<close>,
  which the seed does not govern: on the small world with a height map, draws
  of 0 and draws of 0.5 give different rivers, hence different records.
\<close>

theorem generateWorld_not_deterministic:
  "generateWorld exampleMapGenerator exampleGrid (constantDraws 0) 0 (1 / 10) 1 23.5 1 1 365 Noise
     \<noteq> generateWorld exampleMapGenerator exampleGrid (constantDraws (1 / 2)) 0 (1 / 10) 1 23.5 1 1
           365 Noise"
  unfolding example_map_world_0 example_map_world_half by simp

text \<open>
  Claim C2, amended. For one generator (seed and height map), grid and
  parameter set: two calls in which \<open>Math.random\<close> returns the same first 75
  values (at most 25 for the plates and 50 for the rivers) give the same
  result; and any two calls that return arrays agree on length, order,
  identifiers, latitudes and longitudes, and also on heights and
  temperatures when the method is noise or a height map is loaded.
\<close>

theorem generateWorld_random_dependence:
  "(randomContract r1 \<and> (\<forall>j<75. r1 j = r2 j) \<longrightarrow>
      generateWorld gen g r1 res sl su ax rs rp op m = generateWorld gen g r2 res sl su ax rs rp op m) \<and>
   (generateWorld gen g r1 res sl su ax rs rp op m = Inr w1 \<and>
    generateWorld gen g r2 res sl su ax rs rp op m = Inr w2 \<longrightarrow>
      map h3Index w1 = map h3Index w2 \<and> map lat w1 = map lat w2 \<and> map lon w1 = map lon w2 \<and>
      (m = Noise \<or> heightMapContext gen \<noteq> None \<longrightarrow>
         map height w1 = map height w2 \<and> map temperature w1 = map temperature w2))"
proof -
  have fixed: "map h3Index w1 = map h3Index w2 \<and> map lat w1 = map lat w2 \<and> map lon w1 = map lon w2 \<and>
      (m = Noise \<or> heightMapContext gen \<noteq> None \<longrightarrow>
         map height w1 = map height w2 \<and> map temperature w1 = map temperature w2)"
    if 1: "generateWorld gen g r1 res sl su ax rs rp op m = Inr w1"
      and 2: "generateWorld gen g r2 res sl su ax rs rp op m = Inr w2"
  proof -
    from 1 obtain th1 k1 rv1 where
      w1: "w1 = map (cellData rv1 sl su ax rs rp op) (map (cellInfo gen g m th1) (expandCells g res))"
      by (rule generateWorld_Inr)
    from 2 obtain th2 k2 rv2 where
      w2: "w2 = map (cellData rv2 sl su ax rs rp op) (map (cellInfo gen g m th2) (expandCells g res))"
      by (rule generateWorld_Inr)
    have h: "cellHeight gen m th1 x la lo = cellHeight gen m th2 x la lo"
      if "m = Noise \<or> heightMapContext gen \<noteq> None" for x la lo
      using that by (rule cellHeight_indep)
    show ?thesis
      unfolding w1 w2 by (simp add: comp_def cellData_fields cellInfo_fields h)
  qed
  with generateWorld_cong [of r1 r2 gen g res sl su ax rs rp op m] show ?thesis by blast
qed

text \<open>
  Draws of 0 throughout against draws of 0 for the first 75 values and 0.5
  after; and draws of 0 against draws of 0.5, where the heights agree.
\<close>

theorem generateWorld_random_dependence_witness:
  "generateWorld exampleMapGenerator exampleGrid (constantDraws 0) 0 (1 / 10) 1 23.5 1 1 365 Noise
     = generateWorld exampleMapGenerator exampleGrid (switchDraws 75 0 (1 / 2)) 0 (1 / 10) 1 23.5 1 1
         365 Noise \<and>
   map height
     [\<lparr>h3Index = ''a'', lat = 0, lon = - 180, height = 1,
        temperature = - 42, moisture = 13 / 10, biome = ''RIVER'', isRiver = True\<rparr>,
      \<lparr>h3Index = ''b'', lat = 0, lon = - 90, height = 4 / 5,
        temperature = - 26, moisture = 1, biome = ''ICE'', isRiver = False\<rparr>,
      \<lparr>h3Index = ''c'', lat = 0, lon = 0, height = 1 / 5,
        temperature = 22, moisture = 19 / 20, biome = ''TROPICAL_RAINFOREST'', isRiver = False\<rparr>,
      \<lparr>h3Index = ''d'', lat = 0, lon = 90, height = 0,
        temperature = 30, moisture = 9 / 10, biome = ''OCEAN'', isRiver = False\<rparr>]
   = map height
     [\<lparr>h3Index = ''a'', lat = 0, lon = - 180, height = 1,
        temperature = - 42, moisture = 1, biome = ''ICE'', isRiver = False\<rparr>,
      \<lparr>h3Index = ''b'', lat = 0, lon = - 90, height = 4 / 5,
        temperature = - 26, moisture = 13 / 10, biome = ''RIVER'', isRiver = True\<rparr>,
      \<lparr>h3Index = ''c'', lat = 0, lon = 0, height = 1 / 5,
        temperature = 22, moisture = 5 / 4, biome = ''RIVER'', isRiver = True\<rparr>,
      \<lparr>h3Index = ''d'', lat = 0, lon = 90, height = 0,
        temperature = 30, moisture = 9 / 10, biome = ''OCEAN'', isRiver = False\<rparr>]"
proof -
  have r: "randomContract (constantDraws 0)"
    by (simp add: randomContract_def constantDraws_def)
  have e: "\<forall>j<75. constantDraws 0 j = switchDraws 75 0 (1 / 2) j"
    by (simp add: constantDraws_def switchDraws_def)
  from generateWorld_random_dependence [of "constantDraws 0" "switchDraws 75 0 (1 / 2)"
      exampleMapGenerator exampleGrid 0 "1 / 10" 1 "23.5" 1 1 365 Noise] r e
  have 1: "generateWorld exampleMapGenerator exampleGrid (constantDraws 0) 0 (1 / 10) 1 23.5 1 1 365
      Noise = generateWorld exampleMapGenerator exampleGrid (switchDraws 75 0 (1 / 2)) 0 (1 / 10) 1
      23.5 1 1 365 Noise"
    by blast
  have c: "heightMapContext exampleMapGenerator \<noteq> None"
    by (simp add: exampleMapGenerator_def loadHeightMap_def)
  from generateWorld_random_dependence [of "constantDraws 0" "constantDraws (1 / 2)"
      exampleMapGenerator exampleGrid 0 "1 / 10" 1 "23.5" 1 1 365 Noise,
      unfolded example_map_world_0 example_map_world_half] c 1
  show ?thesis by simp
qed

end
